theory Spec2Isabelle
  imports Complex_Main
begin

section \<open>Tables\<close>

text \<open>
  A table cell is a missing value, a number or a text. Numbers are exact rationals: the
  binary rounding of the machine floats is outside this development.
\<close>

datatype cell = NaN | Num rat | Str string

text \<open>
  A data frame: the column labels in order and the rows, each row holding one cell per
  label. Labels may repeat (two source labels can normalise to the same name).
\<close>

record frame =
  columns :: "string list"
  rows :: "cell list list"

definition rectangular :: "frame \<Rightarrow> bool" where
  "rectangular df = list_all (\<lambda>r. length r = length (columns df)) (rows df)"

datatype py_error =
  FileNotFoundError | EmptyDataError | TypeError | ValueError | OperationalError

section \<open>Strings: \<open>strip\<close>, \<open>replace\<close>, \<open>lower\<close>, \<open>startswith\<close>\<close>

text \<open>Labels are ASCII; the white space of \<open>str.strip\<close> is then 9..13, 28..31 and 32.\<close>

definition is_space :: "char \<Rightarrow> bool" where
  "is_space c = (let n = (of_char c :: nat) in (9 \<le> n \<and> n \<le> 13) \<or> (28 \<le> n \<and> n \<le> 32))"

definition strip :: "string \<Rightarrow> string" where
  "strip s = rev (dropWhile is_space (rev (dropWhile is_space s)))"

definition replace_space :: "string \<Rightarrow> string" where
  "replace_space s = map (\<lambda>c. if c = CHR '' '' then CHR ''_'' else c) s"

definition lower_char :: "char \<Rightarrow> char" where
  "lower_char c = (let n = (of_char c :: nat) in if 65 \<le> n \<and> n \<le> 90 then char_of (n + 32) else c)"

definition lower :: "string \<Rightarrow> string" where
  "lower s = map lower_char s"

definition startswith :: "string \<Rightarrow> string \<Rightarrow> bool" where
  "startswith s p = (take (length p) s = p)"

text \<open>\<open>c.strip().replace(" ", "_").lower()\<close>\<close>

definition normalize_name :: "string \<Rightarrow> string" where
  "normalize_name c = lower (replace_space (strip c))"

section \<open>The data frame operations the transform uses\<close>

text \<open>\<open>drop_duplicates\<close>: exact row match, the first occurrence is kept.\<close>

fun keep_first :: "'a list \<Rightarrow> 'a list \<Rightarrow> 'a list" where
  "keep_first seen [] = []"
| "keep_first seen (x # xs) =
     (if x \<in> set seen then keep_first seen xs else x # keep_first (x # seen) xs)"

definition drop_duplicates :: "frame \<Rightarrow> frame" where
  "drop_duplicates df = df\<lparr>rows := keep_first [] (rows df)\<rparr>"

definition rename_columns :: "frame \<Rightarrow> frame" where
  "rename_columns df = df\<lparr>columns := map normalize_name (columns df)\<rparr>"

definition fill_cell :: "cell \<Rightarrow> cell" where
  "fill_cell c = (if c = NaN then Num 0 else c)"

text \<open>\<open>df.fillna(0, inplace=True)\<close>: every column, whatever it holds.\<close>

definition fillna0 :: "frame \<Rightarrow> frame" where
  "fillna0 df = df\<lparr>rows := map (map fill_cell) (rows df)\<rparr>"

definition quality_map :: "(string \<times> rat) list" where
  "quality_map = [(''Excelente'', 1), (''Buena calidad'', 2), (''Aceptable'', 3), (''Contaminada'', 4)]"

definition semaforo_map :: "(string \<times> rat) list" where
  "semaforo_map = [(''VERDE'', 1), (''AMARILLO'', 2), (''ROJO'', 3)]"

text \<open>\<open>Series.map(dict)\<close> on one value: a value that is no key of the dict gives NaN.\<close>

definition series_map :: "(string \<times> rat) list \<Rightarrow> cell \<Rightarrow> cell" where
  "series_map m c =
     (case c of
        Str s \<Rightarrow> (case map_of m s of Some k \<Rightarrow> Num k | None \<Rightarrow> NaN)
      | _ \<Rightarrow> NaN)"

text \<open>The cells of row \<open>r\<close> under label \<open>name\<close> (several when the label repeats).\<close>

definition getitems :: "string list \<Rightarrow> cell list \<Rightarrow> string \<Rightarrow> cell list" where
  "getitems cols r name = map snd (filter (\<lambda>(c, v). c = name) (zip cols r))"

definition cell_at :: "string list \<Rightarrow> cell list \<Rightarrow> string \<Rightarrow> cell" where
  "cell_at cols r name = (case getitems cols r name of v # _ \<Rightarrow> v | [] \<Rightarrow> NaN)"

text \<open>
  \<open>df[name]\<close> as a Series. A label that occurs twice selects a frame instead, and a
  frame has no \<open>map\<close> that takes a dict: the call raises.
\<close>

definition getitem :: "frame \<Rightarrow> string \<Rightarrow> py_error + cell list" where
  "getitem df name =
     (if count_list (columns df) name = 1
      then Inr (map (\<lambda>r. cell_at (columns df) r name) (rows df))
      else Inl TypeError)"

text \<open>
  \<open>df[name] = series\<close>: an existing label keeps its place and every column carrying it
  takes the new values; a new label is appended as the last column.
\<close>

definition set_cells :: "string list \<Rightarrow> string \<Rightarrow> cell list \<Rightarrow> cell \<Rightarrow> cell list" where
  "set_cells cols name r v =
     (if name \<in> set cols then map2 (\<lambda>c x. if c = name then v else x) cols r else r @ [v])"

definition new_columns :: "string list \<Rightarrow> string \<Rightarrow> string list" where
  "new_columns cols name = (if name \<in> set cols then cols else cols @ [name])"

definition setitem :: "string \<Rightarrow> cell list \<Rightarrow> frame \<Rightarrow> frame" where
  "setitem name series df =
     \<lparr>columns = new_columns (columns df) name,
      rows = map2 (set_cells (columns df) name) (rows df) series\<rparr>"

text \<open>
  \<open>if src in df.columns: df[dst] = df[src].map(m)\<close>
\<close>

definition map_column :: "string \<Rightarrow> string \<Rightarrow> (string \<times> rat) list \<Rightarrow> frame \<Rightarrow> py_error + frame" where
  "map_column src dst m df =
     (if src \<in> set (columns df)
      then (case getitem df src of
              Inl e \<Rightarrow> Inl e
            | Inr s \<Rightarrow> Inr (setitem dst (map (series_map m) s) df))
      else Inr df)"

text \<open>\<open>df[labels]\<close>: for each label in turn, every column that carries it.\<close>

definition select_cells :: "string list \<Rightarrow> string list \<Rightarrow> cell list \<Rightarrow> cell list" where
  "select_cells cols labels r = concat (map (getitems cols r) labels)"

definition is_text :: "cell \<Rightarrow> bool" where
  "is_text c = (case c of Str _ \<Rightarrow> True | _ \<Rightarrow> False)"

definition numbers :: "cell list \<Rightarrow> rat list" where
  "numbers cs = concat (map (\<lambda>c. case c of Num x \<Rightarrow> [x] | _ \<Rightarrow> []) cs)"

text \<open>
  The mean of one row over the selected cells: missing cells are skipped, a row with no
  number has a missing mean, a text cell makes the reduction raise.
\<close>

definition mean_cell :: "cell list \<Rightarrow> cell" where
  "mean_cell cs =
     (let xs = numbers cs in
      if xs = [] then NaN else Num (sum_list xs / of_nat (length xs)))"

definition row_mean :: "cell list \<Rightarrow> py_error + cell" where
  "row_mean cs = (if list_ex is_text cs then Inl TypeError else Inr (mean_cell cs))"

fun sequence :: "('e + 'a) list \<Rightarrow> 'e + 'a list" where
  "sequence [] = Inr []"
| "sequence (x # xs) =
     (case x of
        Inl e \<Rightarrow> Inl e
      | Inr v \<Rightarrow> (case sequence xs of Inl e \<Rightarrow> Inl e | Inr vs \<Rightarrow> Inr (v # vs)))"

definition mean_axis1 :: "cell list list \<Rightarrow> py_error + cell list" where
  "mean_axis1 sel = sequence (map row_mean sel)"

text \<open>Rounding to two decimals, a tie going to the even neighbour.\<close>

definition round2 :: "rat \<Rightarrow> rat" where
  "round2 x =
     (let y = x * 100; f = \<lfloor>y\<rfloor>; d = y - of_int f in
      of_int (if d < 1 / 2 then f else if 1 / 2 < d then f + 1 else if even f then f else f + 1) / 100)"

definition round_cell :: "cell \<Rightarrow> cell" where
  "round_cell c = (case c of Num x \<Rightarrow> Num (round2 x) | _ \<Rightarrow> c)"

section \<open>\<open>transform_quality_data\<close>\<close>

definition indice_columns_of :: "frame \<Rightarrow> string list" where
  "indice_columns_of df = filter (\<lambda>col. startswith col ''indice_calidad_'') (columns df)"

text \<open>
  \<open>if indice_columns: df['indice_calidad_general'] = df[indice_columns].mean(axis=1).round(2)\<close>
\<close>

definition general_index :: "frame \<Rightarrow> py_error + frame" where
  "general_index df =
     (let indice_columns = indice_columns_of df in
      if indice_columns \<noteq> []
      then (case mean_axis1 (map (select_cells (columns df) indice_columns) (rows df)) of
              Inl e \<Rightarrow> Inl e
            | Inr means \<Rightarrow> Inr (setitem ''indice_calidad_general'' (map round_cell means) df))
      else Inr df)"

text \<open>
  The closing summary formats \<open>df[col].mean()\<close> with \<open>:.2f\<close> for every index column and
  the general index. Where the label repeats, \<open>df[col]\<close> is a frame, its mean a Series,
  and the format raises.
\<close>

definition summary :: "string list \<Rightarrow> frame \<Rightarrow> py_error + frame" where
  "summary indice_columns df =
     (if list_ex (\<lambda>col. col \<in> set (columns df) \<and> count_list (columns df) col \<noteq> 1)
           (indice_columns @ [''indice_calidad_general''])
      then Inl TypeError else Inr df)"

definition bind :: "'e + 'a \<Rightarrow> ('a \<Rightarrow> 'e + 'b) \<Rightarrow> 'e + 'b" where
  "bind x f = (case x of Inl e \<Rightarrow> Inl e | Inr v \<Rightarrow> f v)"

text \<open>
  The argument is the table \<open>pd.read_csv(input_path)\<close> returned, the result the table
  \<open>to_csv\<close> wrote to \<open>output_path\<close>; \<open>Inl\<close> is a raise. \<open>ordinal_stage\<close> is the function down
  to the three categorical mappings: its result is the table as the general index finds
  it. The index columns of the summary are those collected before the general index was
  added.
\<close>

definition ordinal_stage :: "frame \<Rightarrow> py_error + frame" where
  "ordinal_stage df0 =
     (let df1 = drop_duplicates df0;
          df2 = rename_columns df1;
          df3 = fillna0 df2
      in bind (map_column ''calidad_dqo'' ''indice_calidad_dqo'' quality_map df3) (\<lambda>df4.
         bind (map_column ''calidad_dbo'' ''indice_calidad_dbo'' quality_map df4) (\<lambda>df5.
         map_column ''calidad_sst'' ''indice_calidad_sst'' quality_map df5)))"

definition transform_quality_data :: "frame \<Rightarrow> py_error + frame" where
  "transform_quality_data df0 =
     bind (ordinal_stage df0) (\<lambda>df6.
     bind (general_index df6) (\<lambda>df7.
     bind (map_column ''semaforo'' ''semaforo_numerico'' semaforo_map df7) (\<lambda>df8.
     summary (indice_columns_of df6) df8)))"

section \<open>The transform, row by row\<close>

text \<open>
  Every step after the deduplication acts on each row by itself. These are the labels
  and the row each step leaves, for the labels \<open>cols\<close> and the row \<open>r\<close> it finds.
\<close>

definition map_cols :: "string \<Rightarrow> string \<Rightarrow> string list \<Rightarrow> string list" where
  "map_cols src dst cols = (if src \<in> set cols then new_columns cols dst else cols)"

definition map_row :: "string \<Rightarrow> string \<Rightarrow> (string \<times> rat) list \<Rightarrow> string list \<Rightarrow> cell list \<Rightarrow> cell list" where
  "map_row src dst m cols r =
     (if src \<in> set cols then set_cells cols dst r (series_map m (cell_at cols r src)) else r)"

definition indice_labels :: "string list \<Rightarrow> string list" where
  "indice_labels cols = filter (\<lambda>col. startswith col ''indice_calidad_'') cols"

definition general_cols :: "string list \<Rightarrow> string list" where
  "general_cols cols =
     (if indice_labels cols \<noteq> [] then new_columns cols ''indice_calidad_general'' else cols)"

definition general_row :: "string list \<Rightarrow> cell list \<Rightarrow> cell list" where
  "general_row cols r =
     (if indice_labels cols \<noteq> []
      then set_cells cols ''indice_calidad_general'' r
             (round_cell (mean_cell (select_cells cols (indice_labels cols) r)))
      else r)"

definition ordinal_cols :: "string list \<Rightarrow> string list" where
  "ordinal_cols cols =
     map_cols ''calidad_sst'' ''indice_calidad_sst''
       (map_cols ''calidad_dbo'' ''indice_calidad_dbo''
          (map_cols ''calidad_dqo'' ''indice_calidad_dqo'' cols))"

definition ordinal_row :: "string list \<Rightarrow> cell list \<Rightarrow> cell list" where
  "ordinal_row cols r =
     (let cols4 = map_cols ''calidad_dqo'' ''indice_calidad_dqo'' cols;
          cols5 = map_cols ''calidad_dbo'' ''indice_calidad_dbo'' cols4
      in map_row ''calidad_sst'' ''indice_calidad_sst'' quality_map cols5
           (map_row ''calidad_dbo'' ''indice_calidad_dbo'' quality_map cols4
              (map_row ''calidad_dqo'' ''indice_calidad_dqo'' quality_map cols r)))"

definition derived_cols :: "string list \<Rightarrow> string list" where
  "derived_cols cols =
     map_cols ''semaforo'' ''semaforo_numerico'' (general_cols (ordinal_cols cols))"

definition derived_row :: "string list \<Rightarrow> cell list \<Rightarrow> cell list" where
  "derived_row cols r =
     map_row ''semaforo'' ''semaforo_numerico'' semaforo_map (general_cols (ordinal_cols cols))
       (general_row (ordinal_cols cols) (ordinal_row cols r))"

text \<open>
  When the function raises, on the labels and rows it has after the zero-fill: in the
  mappings on a category label that repeats; after them on a text cell among the index
  cells of some row, on a traffic-light label that repeats, or on an index label that
  repeats.
\<close>

definition ordinal_raises :: "string list \<Rightarrow> bool" where
  "ordinal_raises cols =
     (let cols4 = map_cols ''calidad_dqo'' ''indice_calidad_dqo'' cols;
          cols5 = map_cols ''calidad_dbo'' ''indice_calidad_dbo'' cols4
      in (''calidad_dqo'' \<in> set cols \<and> count_list cols ''calidad_dqo'' \<noteq> 1) \<or>
         (''calidad_dbo'' \<in> set cols4 \<and> count_list cols4 ''calidad_dbo'' \<noteq> 1) \<or>
         (''calidad_sst'' \<in> set cols5 \<and> count_list cols5 ''calidad_sst'' \<noteq> 1))"

definition transform_raises :: "string list \<Rightarrow> cell list list \<Rightarrow> bool" where
  "transform_raises cols rws =
     (let cols6 = ordinal_cols cols;
          cols7 = general_cols cols6;
          cols8 = derived_cols cols
      in ordinal_raises cols \<or>
         (indice_labels cols6 \<noteq> [] \<and>
            list_ex (\<lambda>r. list_ex is_text (select_cells cols6 (indice_labels cols6) (ordinal_row cols r))) rws) \<or>
         (''semaforo'' \<in> set cols7 \<and> count_list cols7 ''semaforo'' \<noteq> 1) \<or>
         list_ex (\<lambda>col. col \<in> set cols8 \<and> count_list cols8 col \<noteq> 1)
           (indice_labels cols6 @ [''indice_calidad_general'']))"

text \<open>The table the categorical mappings start from.\<close>

definition cleaned_source :: "frame \<Rightarrow> frame" where
  "cleaned_source df = fillna0 (rename_columns (drop_duplicates df))"

section \<open>The pipeline stages: extract, and reading the raw file\<close>

text \<open>
  A file on disk: its size in bytes and its content, the header and the records as the
  file has them. A cell of the content is the text of a field, or missing for an empty
  field; what type a column takes is for the reader to decide.
\<close>

record data_file =
  file_size :: nat
  records :: frame

type_synonym filesystem = "string \<Rightarrow> data_file option"

definition RAW_FILE :: string where
  "RAW_FILE = ''/opt/airflow/data/calidad_agua.csv''"

text \<open>
  \<open>extract\<close> (here \<open>extract_stage\<close>): raise when \<open>os.path.exists\<close> is false, otherwise
  log \<open>os.path.getsize\<close>. The result is the size that is logged.
\<close>

definition extract_stage :: "filesystem \<Rightarrow> py_error + nat" where
  "extract_stage fs =
     (case fs RAW_FILE of
        None \<Rightarrow> Inl FileNotFoundError
      | Some f \<Rightarrow> Inr (file_size f))"

text \<open>
  The numerals the reader takes for numbers, here those in plain decimal notation: an
  optional sign, digits, and optionally a point and more digits.
\<close>

definition is_digit :: "char \<Rightarrow> bool" where
  "is_digit c = (let n = (of_char c :: nat) in 48 \<le> n \<and> n \<le> 57)"

fun digits_value :: "nat \<Rightarrow> string \<Rightarrow> nat option" where
  "digits_value acc [] = Some acc"
| "digits_value acc (c # cs) =
     (if is_digit c then digits_value (10 * acc + (of_char c - 48)) cs else None)"

definition parse_unsigned :: "string \<Rightarrow> rat option" where
  "parse_unsigned s =
     (let ip = takeWhile (\<lambda>c. c \<noteq> CHR ''.'') s;
          fp = drop 1 (dropWhile (\<lambda>c. c \<noteq> CHR ''.'') s)
      in if ip = [] \<and> fp = [] then None
         else (case (digits_value 0 ip, digits_value 0 fp) of
                 (Some a, Some b) \<Rightarrow> Some (of_nat a + of_nat b / 10 ^ length fp)
               | _ \<Rightarrow> None))"

definition parse_number :: "string \<Rightarrow> rat option" where
  "parse_number s =
     (case s of
        [] \<Rightarrow> None
      | c # cs \<Rightarrow>
          if c = CHR ''-'' then map_option uminus (parse_unsigned cs)
          else if c = CHR ''+'' then parse_unsigned cs
          else parse_unsigned s)"

definition is_numeric_field :: "cell \<Rightarrow> bool" where
  "is_numeric_field c = (case c of Str s \<Rightarrow> parse_number s \<noteq> None | _ \<Rightarrow> True)"

definition to_number :: "cell \<Rightarrow> cell" where
  "to_number c =
     (case c of
        Str s \<Rightarrow> (case parse_number s of Some x \<Rightarrow> Num x | None \<Rightarrow> c)
      | _ \<Rightarrow> c)"

text \<open>
  The reader types each column from the fields it has read in one go: a column whose
  fields are all numerals or missing becomes a column of numbers, any other column keeps
  the text of its fields.
\<close>

definition numeric_column :: "cell list list \<Rightarrow> nat \<Rightarrow> bool" where
  "numeric_column rws j = list_all (\<lambda>r. if j < length r then is_numeric_field (r ! j) else True) rws"

definition infer_types :: "cell list list \<Rightarrow> cell list list" where
  "infer_types rws =
     map (\<lambda>r. map (\<lambda>(j, c). if numeric_column rws j then to_number c else c) (zip [0..<length r] r)) rws"

text \<open>
  \<open>pd.read_csv(path)\<close>: a file with no columns to parse raises; otherwise every column
  is typed over all the records of the file (the batches the reader forms by itself on
  files of several hundred thousand records are left out).
\<close>

definition read_csv :: "data_file \<Rightarrow> py_error + frame" where
  "read_csv f =
     (if columns (records f) = [] then Inl EmptyDataError
      else Inr \<lparr>columns = columns (records f), rows = infer_types (rows (records f))\<rparr>)"

function chunks_of :: "nat \<Rightarrow> 'a list \<Rightarrow> 'a list list" where
  "chunks_of n xs = (if n = 0 \<or> xs = [] then [] else take n xs # chunks_of n (drop n xs))"
  by pat_completeness auto
termination
  by (relation "measure (\<lambda>(n, xs). length xs)") auto

declare chunks_of.simps [simp del]

text \<open>
  \<open>pd.read_csv(path, chunksize=n)\<close>, iterated to the end: the records in batches of \<open>n\<close>,
  every batch read and typed by itself; a file with a header and no record yields one
  empty batch.
\<close>

definition read_csv_chunks :: "nat \<Rightarrow> data_file \<Rightarrow> py_error + frame list" where
  "read_csv_chunks n f =
     (if columns (records f) = [] then Inl EmptyDataError
      else Inr (map (\<lambda>b. \<lparr>columns = columns (records f), rows = infer_types b\<rparr>)
                  (if rows (records f) = [] then [[]] else chunks_of n (rows (records f)))))"

text \<open>
  \<open>pd.concat(chunks, ignore_index=True)\<close> on frames that share their labels: the rows one
  batch after the other, every cell as its batch typed it.
\<close>

definition concat_frames :: "frame list \<Rightarrow> py_error + frame" where
  "concat_frames fs =
     (case fs of
        [] \<Rightarrow> Inl ValueError
      | f # _ \<Rightarrow> Inr \<lparr>columns = columns f, rows = concat (map rows fs)\<rparr>)"

text \<open>
  The table \<open>transform\<close> holds in memory once it has read the raw file (the first part of
  the stage, down to the end of its \<open>if\<close>): in batches when the file is larger than
  5 MiB, whole otherwise.
\<close>

definition load_raw :: "data_file \<Rightarrow> py_error + frame" where
  "load_raw f =
     (if 5 * 1024 * 1024 < file_size f
      then bind (read_csv_chunks 10000 f) concat_frames
      else read_csv f)"

text \<open>
  A file of 10,001 records and 6,050,615 bytes. The column \<open>valor\<close> holds numerals in
  its first 10,000 records (\<open>1.50\<close>, \<open>1.5\<close>, then \<open>2.5\<close> throughout) and the text \<open>x\<close> in
  the last; the column \<open>nota\<close> holds the same 600 letters in every record.
\<close>

definition nota :: string where
  "nota = replicate 600 (CHR ''a'')"

definition mixed_file :: data_file where
  "mixed_file =
     \<lparr>file_size = 6050615,
      records = \<lparr>columns = [''valor'', ''nota''],
                 rows = [Str ''1.50'', Str nota] # [Str ''1.5'', Str nota] #
                        replicate 9998 [Str ''2.5'', Str nota] @ [[Str ''x'', Str nota]]\<rparr>\<rparr>"

section \<open>The load stage\<close>

text \<open>
  The database as far as the load touches it: the destination table and the views
  defined over it, each with the text of its query.
\<close>

record database =
  tbl :: "frame option"
  views :: "(string \<times> string) list"

datatype stmt =
  SelectVersion | DropView string | ReplaceTable | CreateView string | SelectCount | SelectStats

text \<open>
  What the outside world does to one run: which statements fail for reasons of its own
  (a lost connection, a missing permission), and the table a failed replacement leaves.
\<close>

record env =
  fails :: "stmt \<Rightarrow> bool"
  leftover :: "frame option"

record session =
  db :: database
  trace :: "(stmt \<times> database) list"
  raised :: "py_error option"
  counted :: "nat option"

definition resumen_por_estado :: string where
  "resumen_por_estado = ''water_data.resumen_por_estado''"

definition calidad_por_periodo :: string where
  "calidad_por_periodo = ''water_data.calidad_por_periodo''"

definition resumen_por_estado_sql :: string where
  "resumen_por_estado_sql =
     ''SELECT estado, COUNT(*) as total_sitios, AVG(indice_calidad_general) as calidad_promedio, '' @
     ''COUNT(CASE WHEN semaforo = 'VERDE' THEN 1 END) as sitios_verdes, '' @
     ''COUNT(CASE WHEN semaforo = 'AMARILLO' THEN 1 END) as sitios_amarillos, '' @
     ''COUNT(CASE WHEN semaforo = 'ROJO' THEN 1 END) as sitios_rojos '' @
     ''FROM water_data.calidad_agua_clean GROUP BY estado ORDER BY calidad_promedio DESC;''"

definition calidad_por_periodo_sql :: string where
  "calidad_por_periodo_sql =
     ''SELECT periodo, estado, COUNT(*) as mediciones, AVG(indice_calidad_general) as calidad_promedio, '' @
     ''MIN(indice_calidad_general) as calidad_minima, MAX(indice_calidad_general) as calidad_maxima '' @
     ''FROM water_data.calidad_agua_clean GROUP BY periodo, estado ORDER BY periodo DESC, estado;''"

text \<open>\<open>DROP VIEW IF EXISTS v CASCADE\<close>\<close>

definition drop_view :: "string \<Rightarrow> database \<Rightarrow> py_error + database" where
  "drop_view v d = Inr (d\<lparr>views := filter (\<lambda>(n, q). n \<noteq> v) (views d)\<rparr>)"

text \<open>
  \<open>to_sql(if_exists='replace')\<close>: the old table is dropped, which the database refuses
  while a view depends on it, and the new rows are all the table then holds.
\<close>

definition replace_table :: "frame \<Rightarrow> database \<Rightarrow> py_error + database" where
  "replace_table df d =
     (if tbl d \<noteq> None \<and> views d \<noteq> [] then Inl OperationalError
      else Inr (d\<lparr>tbl := Some df\<rparr>))"

text \<open>
  \<open>CREATE VIEW v AS q\<close>: refused when the name is taken, when the table is missing or
  when it lacks a column the query names.
\<close>

definition create_view :: "string \<Rightarrow> string \<Rightarrow> string list \<Rightarrow> database \<Rightarrow> py_error + database" where
  "create_view v q needed d =
     (case tbl d of
        None \<Rightarrow> Inl OperationalError
      | Some t \<Rightarrow>
          if v \<in> fst ` set (views d) \<or> \<not> set needed \<subseteq> set (columns t) then Inl OperationalError
          else Inr (d\<lparr>views := views d @ [(v, q)]\<rparr>))"

text \<open>
  One statement: skipped once something was raised; otherwise it fails from outside, or
  is refused by the database, or takes effect and is recorded in the trace together with
  the database it found.
\<close>

definition execute :: "env \<Rightarrow> stmt \<Rightarrow> (database \<Rightarrow> py_error + database) \<Rightarrow> session \<Rightarrow> session" where
  "execute e s effect ss =
     (if raised ss \<noteq> None then ss
      else if fails e s then ss\<lparr>raised := Some OperationalError\<rparr>
      else (case effect (db ss) of
              Inl err \<Rightarrow> ss\<lparr>raised := Some err\<rparr>
            | Inr d \<Rightarrow> ss\<lparr>db := d, trace := trace ss @ [(s, db ss)]\<rparr>))"

text \<open>\<open>with engine.begin() as conn\<close>: commit at the end, roll back on a raise.\<close>

definition transaction :: "(session \<Rightarrow> session) \<Rightarrow> session \<Rightarrow> session" where
  "transaction body ss =
     (let ss' = body ss in if raised ss' \<noteq> None then ss'\<lparr>db := db ss\<rparr> else ss')"

text \<open>
  The replacement is the library's own unit of work: what a replacement that fails from
  outside leaves of the table is the environment's.
\<close>

definition execute_to_sql :: "env \<Rightarrow> frame \<Rightarrow> session \<Rightarrow> session" where
  "execute_to_sql e df ss =
     (if raised ss = None \<and> fails e ReplaceTable
      then ss\<lparr>db := (db ss)\<lparr>tbl := leftover e\<rparr>, raised := Some OperationalError\<rparr>
      else execute e ReplaceTable (replace_table df) ss)"

definition select_count :: "session \<Rightarrow> session" where
  "select_count ss =
     (if raised ss \<noteq> None then ss
      else ss\<lparr>counted := map_option (\<lambda>t. length (rows t)) (tbl (db ss))\<rparr>)"

text \<open>\<open>df_to_load['fecha_carga'] = datetime.now()\<close>: one value for every row.\<close>

definition setitem_scalar :: "string \<Rightarrow> cell \<Rightarrow> frame \<Rightarrow> frame" where
  "setitem_scalar name v df = setitem name (replicate (length (rows df)) v) df"

text \<open>
  \<open>load\<close>, from the state of the Parquet file (\<open>None\<close>: it does not exist), the time of
  the run and the database it finds.
\<close>

definition load :: "env \<Rightarrow> cell \<Rightarrow> frame option \<Rightarrow> database \<Rightarrow> session" where
  "load e now parquet d =
     (case parquet of
        None \<Rightarrow> \<lparr>db = d, trace = [], raised = Some FileNotFoundError, counted = None\<rparr>
      | Some df \<Rightarrow>
          (let s0 = \<lparr>db = d, trace = [], raised = None, counted = None\<rparr>;
               s1 = execute e SelectVersion Inr s0;
               df_to_load = setitem_scalar ''fecha_carga'' now df;
               s2 = transaction
                      (\<lambda>ss. execute e (DropView calidad_por_periodo) (drop_view calidad_por_periodo)
                              (execute e (DropView resumen_por_estado) (drop_view resumen_por_estado) ss))
                      s1;
               s3 = execute_to_sql e df_to_load s2;
               s4 = transaction
                      (\<lambda>ss. execute e (CreateView calidad_por_periodo)
                               (create_view calidad_por_periodo calidad_por_periodo_sql
                                  [''periodo'', ''estado'', ''indice_calidad_general''])
                              (execute e (CreateView resumen_por_estado)
                                 (create_view resumen_por_estado resumen_por_estado_sql
                                    [''estado'', ''indice_calidad_general'', ''semaforo''])
                                 ss))
                      s3;
               s5 = select_count (execute e SelectCount Inr s4);
               s6 = (if ''semaforo'' \<in> set (columns df) then execute e SelectStats Inr s5 else s5)
           in s6))"

section \<open>The load, step by step\<close>

text \<open>
  The load in three parts: the connection check with the transaction that drops the
  views, the transaction that creates them again, and everything after the drop. Then
  the views a run leaves in place, the tables both queries can be defined on, the
  databases in which views exist only over an existing table, and the number of rows of
  the destination table.
\<close>

text \<open>The steps of the load after the views were dropped.\<close>

definition after_drop :: "env \<Rightarrow> frame \<Rightarrow> frame \<Rightarrow> session \<Rightarrow> session" where
  "after_drop e df df_to_load s2 =
     (let s3 = execute_to_sql e df_to_load s2;
          s4 = transaction
                 (\<lambda>ss. execute e (CreateView calidad_por_periodo)
                          (create_view calidad_por_periodo calidad_por_periodo_sql
                             [''periodo'', ''estado'', ''indice_calidad_general''])
                         (execute e (CreateView resumen_por_estado)
                            (create_view resumen_por_estado resumen_por_estado_sql
                               [''estado'', ''indice_calidad_general'', ''semaforo''])
                            ss))
                 s3;
          s5 = select_count (execute e SelectCount Inr s4)
      in if ''semaforo'' \<in> set (columns df) then execute e SelectStats Inr s5 else s5)"

definition drop_step :: "env \<Rightarrow> database \<Rightarrow> session" where
  "drop_step e d =
     transaction
       (\<lambda>ss. execute e (DropView calidad_por_periodo) (drop_view calidad_por_periodo)
               (execute e (DropView resumen_por_estado) (drop_view resumen_por_estado) ss))
       (execute e SelectVersion Inr \<lparr>db = d, trace = [], raised = None, counted = None\<rparr>)"

definition remaining_views :: "database \<Rightarrow> (string \<times> string) list" where
  "remaining_views d =
     filter (\<lambda>(n, q). n \<noteq> calidad_por_periodo) (filter (\<lambda>(n, q). n \<noteq> resumen_por_estado) (views d))"

definition consistent :: "database \<Rightarrow> bool" where
  "consistent d = (tbl d = None \<longrightarrow> views d = [])"

definition row_count :: "database \<Rightarrow> nat option" where
  "row_count d = map_option (\<lambda>t. length (rows t)) (tbl d)"

definition views_creatable :: "frame \<Rightarrow> bool" where
  "views_creatable t =
     (set [''estado'', ''indice_calidad_general'', ''semaforo''] \<subseteq> set (columns t) \<and>
      set [''periodo'', ''estado'', ''indice_calidad_general''] \<subseteq> set (columns t))"

definition create_step :: "env \<Rightarrow> session \<Rightarrow> session" where
  "create_step e s3 =
     transaction
       (\<lambda>ss. execute e (CreateView calidad_por_periodo)
                (create_view calidad_por_periodo calidad_por_periodo_sql
                   [''periodo'', ''estado'', ''indice_calidad_general''])
               (execute e (CreateView resumen_por_estado)
                  (create_view resumen_por_estado resumen_por_estado_sql
                     [''estado'', ''indice_calidad_general'', ''semaforo''])
                  ss))
       s3"

text \<open>
  The three categories with the column each mapping writes, and the labels the function
  writes itself.
\<close>

definition category_pairs :: "(string \<times> string) list" where
  "category_pairs =
     [(''calidad_dqo'', ''indice_calidad_dqo''), (''calidad_dbo'', ''indice_calidad_dbo''),
      (''calidad_sst'', ''indice_calidad_sst'')]"

definition derived_names :: "string list" where
  "derived_names =
     [''indice_calidad_dqo'', ''indice_calidad_dbo'', ''indice_calidad_sst'',
      ''indice_calidad_general'', ''semaforo_numerico'']"

section \<open>The general index as the specification words it\<close>

text \<open>
  The ordinal codes of the four labels, the codes of the categories a row has, and their
  mean rounded to two decimals (missing when the row has no code).
\<close>

definition ordinal_code :: "cell \<Rightarrow> rat option" where
  "ordinal_code c =
     (if c = Str ''Excelente'' then Some 1
      else if c = Str ''Buena calidad'' then Some 2
      else if c = Str ''Aceptable'' then Some 3
      else if c = Str ''Contaminada'' then Some 4
      else None)"

definition present_codes :: "string list \<Rightarrow> cell list \<Rightarrow> rat list" where
  "present_codes cols r =
     concat (map (\<lambda>src. if src \<in> set cols
                        then (case ordinal_code (cell_at cols r src) of Some k \<Rightarrow> [k] | None \<Rightarrow> [])
                        else [])
               [''calidad_dqo'', ''calidad_dbo'', ''calidad_sst''])"

definition spec_general :: "string list \<Rightarrow> cell list \<Rightarrow> cell" where
  "spec_general cols r =
     (let ks = present_codes cols r in
      if ks = [] then NaN else Num (round2 (sum_list ks / of_nat (length ks))))"

section \<open>Lemmas on rows and frames\<close>

lemma map2_map_same: "map2 g xs (map f xs) = map (\<lambda>x. g x (f x)) xs"
  by (induction xs) auto

lemma setitem_map:
  "setitem name (map f (rows df)) df =
     \<lparr>columns = new_columns (columns df) name,
      rows = map (\<lambda>r. set_cells (columns df) name r (f r)) (rows df)\<rparr>"
  by (simp add: setitem_def map2_map_same)

lemma length_set_cells:
  "length r = length cols \<Longrightarrow> length (set_cells cols name r v) = length (new_columns cols name)"
  by (simp add: set_cells_def new_columns_def)

lemma getitems_Nil [simp]: "getitems [] r n = []" "getitems cols [] n = []"
  by (simp_all add: getitems_def)

lemma getitems_Cons [simp]:
  "getitems (c # cols) (v # r) n = (if c = n then v # getitems cols r n else getitems cols r n)"
  by (simp add: getitems_def)

lemma getitems_append:
  "length r = length cols \<Longrightarrow>
   getitems (cols @ cs) (r @ vs) n = getitems cols r n @ getitems cs vs n"
  by (simp add: getitems_def)

lemma getitems_notin: "n \<notin> set cols \<Longrightarrow> getitems cols r n = []"
  by (induction cols arbitrary: r) (case_tac r; auto)+

lemma length_getitems:
  "length r = length cols \<Longrightarrow> length (getitems cols r n) = count_list cols n"
  by (induction r cols rule: list_induct2) auto

lemma getitems_replace_same:
  "length r = length cols \<Longrightarrow>
   getitems cols (map2 (\<lambda>c x. if c = n then v else x) cols r) n = replicate (count_list cols n) v"
  by (induction r cols rule: list_induct2) auto

lemma getitems_replace_other:
  "length r = length cols \<Longrightarrow> n' \<noteq> n \<Longrightarrow>
   getitems cols (map2 (\<lambda>c x. if c = n then v else x) cols r) n' = getitems cols r n'"
  by (induction r cols rule: list_induct2) auto

lemma getitems_set_cells_same:
  "length r = length cols \<Longrightarrow>
   getitems (new_columns cols n) (set_cells cols n r v) n =
     replicate (if n \<in> set cols then count_list cols n else 1) v"
  by (simp add: set_cells_def new_columns_def getitems_replace_same getitems_append getitems_notin)

lemma getitems_set_cells_other:
  "length r = length cols \<Longrightarrow> n' \<noteq> n \<Longrightarrow>
   getitems (new_columns cols n) (set_cells cols n r v) n' = getitems cols r n'"
  by (simp add: set_cells_def new_columns_def getitems_replace_other getitems_append)

lemma cell_at_set_cells_same:
  "length r = length cols \<Longrightarrow> cell_at (new_columns cols n) (set_cells cols n r v) n = v"
proof -
  assume len: "length r = length cols"
  have "n \<in> set cols \<Longrightarrow> count_list cols n \<noteq> 0"
    by (simp add: count_list_0_iff)
  then have "0 < (if n \<in> set cols then count_list cols n else 1)"
    by auto
  then obtain k where "(if n \<in> set cols then count_list cols n else 1) = Suc k"
    using gr0_implies_Suc by blast
  then show ?thesis
    by (simp add: cell_at_def getitems_set_cells_same [OF len])
qed

lemma cell_at_set_cells_other:
  "length r = length cols \<Longrightarrow> n' \<noteq> n \<Longrightarrow>
   cell_at (new_columns cols n) (set_cells cols n r v) n' = cell_at cols r n'"
  by (simp add: cell_at_def getitems_set_cells_other)

lemma getitem_eq:
  "getitem df name =
     (if count_list (columns df) name = 1
      then Inr (map (\<lambda>r. cell_at (columns df) r name) (rows df)) else Inl TypeError)"
  by (simp add: getitem_def)

lemma map_row_absent: "src \<notin> set cols \<Longrightarrow> map_row src dst m cols = (\<lambda>r. r)"
  by (rule ext) (simp add: map_row_def)

lemma general_row_absent: "indice_labels cols = [] \<Longrightarrow> general_row cols = (\<lambda>r. r)"
  by (rule ext) (simp add: general_row_def)

lemma map_column_eq:
  "map_column src dst m df =
     (if src \<in> set (columns df) \<and> count_list (columns df) src \<noteq> 1 then Inl TypeError
      else Inr \<lparr>columns = map_cols src dst (columns df),
                rows = map (map_row src dst m (columns df)) (rows df)\<rparr>)"
proof (cases df)
  case (fields cs rs)
  have "setitem dst (map (\<lambda>r. series_map m (cell_at (columns df) r src)) (rows df)) df =
        \<lparr>columns = new_columns (columns df) dst,
         rows = map (\<lambda>r. set_cells (columns df) dst r (series_map m (cell_at (columns df) r src))) (rows df)\<rparr>"
    by (rule setitem_map)
  then show ?thesis
    using fields by (auto simp: map_column_def getitem_def map_cols_def map_row_absent map_row_def comp_def)
qed

lemma sequence_row_mean:
  "sequence (map (\<lambda>x. row_mean (f x)) xs) =
     (if \<exists>x \<in> set xs. list_ex is_text (f x) then Inl TypeError
      else Inr (map (\<lambda>x. mean_cell (f x)) xs))"
  by (induction xs) (auto simp: row_mean_def)

lemma general_row_present:
  "indice_labels cols \<noteq> [] \<Longrightarrow>
   general_row cols =
     (\<lambda>r. set_cells cols ''indice_calidad_general'' r
            (round_cell (mean_cell (select_cells cols (indice_labels cols) r))))"
  by (rule ext) (simp add: general_row_def)

lemma general_index_eq:
  "general_index df =
     (if indice_labels (columns df) \<noteq> [] \<and>
         (\<exists>r \<in> set (rows df). list_ex is_text (select_cells (columns df) (indice_labels (columns df)) r))
      then Inl TypeError
      else Inr \<lparr>columns = general_cols (columns df), rows = map (general_row (columns df)) (rows df)\<rparr>)"
proof (cases df)
  case (fields cs rs)
  let ?sel = "select_cells (columns df) (indice_labels (columns df))"
  have set: "setitem ''indice_calidad_general'' (map (\<lambda>r. round_cell (mean_cell (?sel r))) (rows df)) df =
        \<lparr>columns = new_columns (columns df) ''indice_calidad_general'',
         rows = map (\<lambda>r. set_cells (columns df) ''indice_calidad_general'' r (round_cell (mean_cell (?sel r)))) (rows df)\<rparr>"
    by (rule setitem_map)
  have ic: "\<And>d. indice_columns_of d = indice_labels (columns d)"
    by (simp add: indice_columns_of_def indice_labels_def)
  show ?thesis
  proof (cases "indice_labels (columns df) = []")
    case True
    then show ?thesis
      using fields by (simp add: general_index_def ic general_cols_def general_row_absent)
  next
    case False
    then show ?thesis
      using set
      by (simp add: general_index_def ic Let_def mean_axis1_def sequence_row_mean
            general_cols_def general_row_present comp_def)
  qed
qed

lemma bind_simps [simp]: "bind (Inl e) f = Inl e" "bind (Inr v) f = f v"
  by (simp_all add: bind_def)

lemma columns_cleaned_source: "columns (cleaned_source df) = map normalize_name (columns df)"
  by (simp add: cleaned_source_def fillna0_def rename_columns_def drop_duplicates_def)

lemma rows_cleaned_source: "rows (cleaned_source df) = map (map fill_cell) (keep_first [] (rows df))"
  by (simp add: cleaned_source_def fillna0_def rename_columns_def drop_duplicates_def)

lemma ordinal_stage_eq:
  "ordinal_stage df =
     (if ordinal_raises (columns (cleaned_source df)) then Inl TypeError
      else Inr \<lparr>columns = ordinal_cols (columns (cleaned_source df)),
                rows = map (ordinal_row (columns (cleaned_source df))) (rows (cleaned_source df))\<rparr>)"
proof -
  let ?cols = "columns (cleaned_source df)" and ?rws = "rows (cleaned_source df)"
  let ?cols4 = "map_cols ''calidad_dqo'' ''indice_calidad_dqo'' ?cols"
  let ?cols5 = "map_cols ''calidad_dbo'' ''indice_calidad_dbo'' ?cols4"
  have unfold: "ordinal_stage df =
     bind (map_column ''calidad_dqo'' ''indice_calidad_dqo'' quality_map (cleaned_source df)) (\<lambda>df4.
     bind (map_column ''calidad_dbo'' ''indice_calidad_dbo'' quality_map df4) (\<lambda>df5.
     map_column ''calidad_sst'' ''indice_calidad_sst'' quality_map df5))"
    by (simp add: ordinal_stage_def cleaned_source_def Let_def)
  show ?thesis
    unfolding unfold
    apply (subst map_column_eq)
    apply (cases "''calidad_dqo'' \<in> set ?cols \<and> count_list ?cols ''calidad_dqo'' \<noteq> 1")
     apply (simp add: ordinal_raises_def Let_def)
    apply (simp only: if_False bind_simps)
    apply (subst map_column_eq)
    apply (simp only: frame.simps)
    apply (cases "''calidad_dbo'' \<in> set ?cols4 \<and> count_list ?cols4 ''calidad_dbo'' \<noteq> 1")
     apply (simp add: ordinal_raises_def Let_def)
    apply (simp only: if_False bind_simps)
    apply (subst map_column_eq)
    apply (simp only: frame.simps)
    apply (simp add: ordinal_raises_def Let_def ordinal_cols_def ordinal_row_def)
    done
qed

lemma transform_quality_data_eq:
  "transform_quality_data df =
     (if transform_raises (columns (cleaned_source df)) (rows (cleaned_source df)) then Inl TypeError
      else Inr \<lparr>columns = derived_cols (columns (cleaned_source df)),
                rows = map (derived_row (columns (cleaned_source df))) (rows (cleaned_source df))\<rparr>)"
proof -
  let ?cols = "columns (cleaned_source df)" and ?rws = "rows (cleaned_source df)"
  show ?thesis
    unfolding transform_quality_data_def
    apply (subst ordinal_stage_eq)
    apply (cases "ordinal_raises ?cols")
     apply (simp add: transform_raises_def Let_def)
    apply (simp only: if_False bind_simps)
    apply (subst general_index_eq)
    apply (simp only: frame.simps)
    apply (cases "indice_labels (ordinal_cols ?cols) \<noteq> [] \<and>
         (\<exists>r\<in>set (map (ordinal_row ?cols) ?rws).
             list_ex is_text (select_cells (ordinal_cols ?cols) (indice_labels (ordinal_cols ?cols)) r))")
     apply (simp add: transform_raises_def Let_def list_ex_iff)
    apply (simp only: if_False bind_simps)
    apply (subst map_column_eq)
    apply (simp only: frame.simps)
    apply (cases "''semaforo'' \<in> set (general_cols (ordinal_cols ?cols)) \<and> count_list (general_cols (ordinal_cols ?cols)) ''semaforo'' \<noteq> 1")
     apply (simp add: transform_raises_def Let_def)
    apply (simp only: if_False bind_simps)
    apply (simp add: summary_def transform_raises_def Let_def list_ex_iff indice_columns_of_def
             indice_labels_def [symmetric] derived_cols_def [symmetric] derived_row_def)
    done
qed

lemma set_new_columns [simp]: "set (new_columns cols n) = insert n (set cols)"
  by (auto simp: new_columns_def)

lemma count_new_columns_other: "n' \<noteq> n \<Longrightarrow> count_list (new_columns cols n) n' = count_list cols n'"
  by (simp add: new_columns_def)

lemma set_map_cols: "set (map_cols src dst cols) = (if src \<in> set cols then insert dst (set cols) else set cols)"
  by (simp add: map_cols_def)

lemma count_map_cols_other: "n \<noteq> dst \<Longrightarrow> count_list (map_cols src dst cols) n = count_list cols n"
  by (simp add: map_cols_def count_new_columns_other)

lemma length_map_row:
  "length r = length cols \<Longrightarrow> length (map_row src dst m cols r) = length (map_cols src dst cols)"
  by (simp add: map_row_def map_cols_def length_set_cells)

lemma getitems_map_row_other:
  "length r = length cols \<Longrightarrow> n \<noteq> dst \<Longrightarrow>
   getitems (map_cols src dst cols) (map_row src dst m cols r) n = getitems cols r n"
  by (simp add: map_row_def map_cols_def getitems_set_cells_other)

lemma cell_at_map_row_other:
  "length r = length cols \<Longrightarrow> n \<noteq> dst \<Longrightarrow>
   cell_at (map_cols src dst cols) (map_row src dst m cols r) n = cell_at cols r n"
  by (simp add: cell_at_def getitems_map_row_other)

lemma cell_at_map_row_dst:
  "length r = length cols \<Longrightarrow> src \<in> set cols \<Longrightarrow>
   cell_at (map_cols src dst cols) (map_row src dst m cols r) dst = series_map m (cell_at cols r src)"
  by (simp add: map_row_def map_cols_def cell_at_set_cells_same)

lemma map_row_absent_eq: "src \<notin> set cols \<Longrightarrow> map_row src dst m cols r = r"
  by (simp add: map_row_def)

lemma map_cols_absent_eq: "src \<notin> set cols \<Longrightarrow> map_cols src dst cols = cols"
  by (simp add: map_cols_def)

lemma length_general_row:
  "length r = length cols \<Longrightarrow> length (general_row cols r) = length (general_cols cols)"
  by (simp add: general_row_def general_cols_def length_set_cells)

lemma getitems_general_row_other:
  "length r = length cols \<Longrightarrow> n \<noteq> ''indice_calidad_general'' \<Longrightarrow>
   getitems (general_cols cols) (general_row cols r) n = getitems cols r n"
  by (simp add: general_row_def general_cols_def getitems_set_cells_other)

lemma cell_at_general_row_other:
  "length r = length cols \<Longrightarrow> n \<noteq> ''indice_calidad_general'' \<Longrightarrow>
   cell_at (general_cols cols) (general_row cols r) n = cell_at cols r n"
  by (simp add: cell_at_def getitems_general_row_other)

lemma cell_at_general_row:
  "length r = length cols \<Longrightarrow> indice_labels cols \<noteq> [] \<Longrightarrow>
   cell_at (general_cols cols) (general_row cols r) ''indice_calidad_general'' =
     round_cell (mean_cell (select_cells cols (indice_labels cols) r))"
  by (simp add: general_row_def general_cols_def cell_at_set_cells_same)

lemma length_ordinal_row:
  "length r = length cols \<Longrightarrow> length (ordinal_row cols r) = length (ordinal_cols cols)"
  by (simp add: ordinal_row_def ordinal_cols_def Let_def length_map_row)

lemma getitems_ordinal_row_other:
  "length r = length cols \<Longrightarrow>
   n \<noteq> ''indice_calidad_dqo'' \<Longrightarrow> n \<noteq> ''indice_calidad_dbo'' \<Longrightarrow> n \<noteq> ''indice_calidad_sst'' \<Longrightarrow>
   getitems (ordinal_cols cols) (ordinal_row cols r) n = getitems cols r n"
  by (simp add: ordinal_row_def ordinal_cols_def Let_def length_map_row getitems_map_row_other)

lemma cell_at_ordinal_row_other:
  "length r = length cols \<Longrightarrow>
   n \<noteq> ''indice_calidad_dqo'' \<Longrightarrow> n \<noteq> ''indice_calidad_dbo'' \<Longrightarrow> n \<noteq> ''indice_calidad_sst'' \<Longrightarrow>
   cell_at (ordinal_cols cols) (ordinal_row cols r) n = cell_at cols r n"
  by (simp add: cell_at_def getitems_ordinal_row_other)

lemma cell_at_ordinal_row_dqo:
  "length r = length cols \<Longrightarrow> ''calidad_dqo'' \<in> set cols \<Longrightarrow>
   cell_at (ordinal_cols cols) (ordinal_row cols r) ''indice_calidad_dqo'' =
     series_map quality_map (cell_at cols r ''calidad_dqo'')"
  by (simp add: ordinal_row_def ordinal_cols_def Let_def length_map_row cell_at_map_row_other
        cell_at_map_row_dst)

lemma cell_at_ordinal_row_dbo:
  "length r = length cols \<Longrightarrow> ''calidad_dbo'' \<in> set cols \<Longrightarrow>
   cell_at (ordinal_cols cols) (ordinal_row cols r) ''indice_calidad_dbo'' =
     series_map quality_map (cell_at cols r ''calidad_dbo'')"
  by (simp add: ordinal_row_def ordinal_cols_def Let_def length_map_row cell_at_map_row_other
        cell_at_map_row_dst set_map_cols)

lemma cell_at_ordinal_row_sst:
  "length r = length cols \<Longrightarrow> ''calidad_sst'' \<in> set cols \<Longrightarrow>
   cell_at (ordinal_cols cols) (ordinal_row cols r) ''indice_calidad_sst'' =
     series_map quality_map (cell_at cols r ''calidad_sst'')"
  by (simp add: ordinal_row_def ordinal_cols_def Let_def length_map_row cell_at_map_row_other
        cell_at_map_row_dst set_map_cols)

lemma length_derived_row:
  "length r = length cols \<Longrightarrow> length (derived_row cols r) = length (derived_cols cols)"
  by (simp add: derived_row_def derived_cols_def length_map_row length_general_row length_ordinal_row)

lemma getitems_derived_row_other:
  "length r = length cols \<Longrightarrow>
   n \<noteq> ''semaforo_numerico'' \<Longrightarrow> n \<noteq> ''indice_calidad_general'' \<Longrightarrow>
   getitems (derived_cols cols) (derived_row cols r) n = getitems (ordinal_cols cols) (ordinal_row cols r) n"
  by (simp add: derived_row_def derived_cols_def getitems_map_row_other getitems_general_row_other
        length_general_row length_ordinal_row)

lemma cell_at_derived_row_other:
  "length r = length cols \<Longrightarrow>
   n \<noteq> ''semaforo_numerico'' \<Longrightarrow> n \<noteq> ''indice_calidad_general'' \<Longrightarrow>
   cell_at (derived_cols cols) (derived_row cols r) n = cell_at (ordinal_cols cols) (ordinal_row cols r) n"
  by (simp add: cell_at_def getitems_derived_row_other)

lemma cell_at_derived_row_general:
  "length r = length cols \<Longrightarrow> indice_labels (ordinal_cols cols) \<noteq> [] \<Longrightarrow>
   cell_at (derived_cols cols) (derived_row cols r) ''indice_calidad_general'' =
     round_cell (mean_cell (select_cells (ordinal_cols cols) (indice_labels (ordinal_cols cols)) (ordinal_row cols r)))"
  by (simp add: derived_row_def derived_cols_def cell_at_map_row_other cell_at_general_row
        length_general_row length_ordinal_row)

lemma length_keep_first_rows:
  "list_all P xs \<Longrightarrow> list_all P (keep_first seen xs)"
  by (induction xs arbitrary: seen) auto

lemma rectangular_cleaned_source:
  "rectangular df \<Longrightarrow> r \<in> set (rows (cleaned_source df)) \<Longrightarrow> length r = length (columns (cleaned_source df))"
proof -
  assume rect: "rectangular df" and r: "r \<in> set (rows (cleaned_source df))"
  have "list_all (\<lambda>r. length r = length (columns df)) (keep_first [] (rows df))"
    using rect unfolding rectangular_def by (rule length_keep_first_rows)
  then show ?thesis
    using r by (auto simp: rows_cleaned_source columns_cleaned_source list_all_iff)
qed

lemma count_one_of_member: "n \<in> set cols \<Longrightarrow> count_list cols n \<le> 1 \<Longrightarrow> count_list cols n = 1"
  using count_list_0_iff [of cols n] by linarith

lemma indice_labels_none: "(\<forall>c \<in> set cols. \<not> startswith c ''indice_calidad_'') \<Longrightarrow> indice_labels cols = []"
  by (simp add: indice_labels_def)

lemma series_map_quality:
  "series_map quality_map c = (case ordinal_code c of Some k \<Rightarrow> Num k | None \<Rightarrow> NaN)"
  by (cases c) (simp_all add: series_map_def quality_map_def ordinal_code_def)

lemma numbers_simps [simp]:
  "numbers [] = []"
  "numbers (NaN # cs) = numbers cs"
  "numbers (Num x # cs) = x # numbers cs"
  "numbers (Str s # cs) = numbers cs"
  by (simp_all add: numbers_def)

lemma numbers_append: "numbers (xs @ ys) = numbers xs @ numbers ys"
  by (simp add: numbers_def)

lemma numbers_series_map_quality:
  "numbers [series_map quality_map c] = (case ordinal_code c of Some k \<Rightarrow> [k] | None \<Rightarrow> [])"
  by (simp add: series_map_quality split: option.split)

text \<open>The index cells of a row when the source brings no index column of its own.\<close>

lemma getitems_map_row_new:
  "length r = length cols \<Longrightarrow> src \<in> set cols \<Longrightarrow> dst \<notin> set cols \<Longrightarrow>
   getitems (map_cols src dst cols) (map_row src dst m cols r) dst = [series_map m (cell_at cols r src)]"
  by (simp add: map_row_def map_cols_def getitems_set_cells_same)

lemma getitems_map_row_absent:
  "length r = length cols \<Longrightarrow> src \<notin> set cols \<Longrightarrow> dst \<notin> set cols \<Longrightarrow>
   getitems (map_cols src dst cols) (map_row src dst m cols r) dst = []"
  by (simp add: map_row_def map_cols_def getitems_notin)

lemma indice_labels_append: "indice_labels (xs @ ys) = indice_labels xs @ indice_labels ys"
  by (simp add: indice_labels_def)

lemma indice_labels_map_cols:
  "indice_labels cols = [] \<Longrightarrow> dst \<notin> set cols \<Longrightarrow> startswith dst ''indice_calidad_'' \<Longrightarrow>
   indice_labels (map_cols src dst cols) = (if src \<in> set cols then [dst] else [])"
  by (simp add: map_cols_def new_columns_def indice_labels_def)

lemma indice_labels_map_cols_new:
  "dst \<notin> set cols \<Longrightarrow> startswith dst ''indice_calidad_'' \<Longrightarrow>
   indice_labels (map_cols src dst cols) = indice_labels cols @ (if src \<in> set cols then [dst] else [])"
  by (simp add: map_cols_def new_columns_def indice_labels_def)

lemma startswith_indices [simp]:
  "startswith ''indice_calidad_dqo'' ''indice_calidad_''"
  "startswith ''indice_calidad_dbo'' ''indice_calidad_''"
  "startswith ''indice_calidad_sst'' ''indice_calidad_''"
  "startswith ''indice_calidad_general'' ''indice_calidad_''"
  "\<not> startswith ''calidad_dqo'' ''indice_calidad_''"
  "\<not> startswith ''calidad_dbo'' ''indice_calidad_''"
  "\<not> startswith ''calidad_sst'' ''indice_calidad_''"
  "\<not> startswith ''semaforo'' ''indice_calidad_''"
  "\<not> startswith ''semaforo_numerico'' ''indice_calidad_''"
  by (simp_all add: startswith_def)

lemma no_index_label:
  assumes "\<forall>c \<in> set cols. \<not> startswith c ''indice_calidad_''"
  shows "''indice_calidad_dqo'' \<notin> set cols" "''indice_calidad_dbo'' \<notin> set cols"
        "''indice_calidad_sst'' \<notin> set cols" "''indice_calidad_general'' \<notin> set cols"
  using assms startswith_indices(1-4) by blast+

lemma indice_labels_ordinal_cols:
  assumes "\<forall>c \<in> set cols. \<not> startswith c ''indice_calidad_''"
  shows "indice_labels (ordinal_cols cols) =
           (if ''calidad_dqo'' \<in> set cols then [''indice_calidad_dqo''] else []) @
           (if ''calidad_dbo'' \<in> set cols then [''indice_calidad_dbo''] else []) @
           (if ''calidad_sst'' \<in> set cols then [''indice_calidad_sst''] else [])"
proof -
  note no = no_index_label [OF assms]
  have none: "indice_labels cols = []"
    using assms by (rule indice_labels_none)
  let ?c4 = "map_cols ''calidad_dqo'' ''indice_calidad_dqo'' cols"
  let ?c5 = "map_cols ''calidad_dbo'' ''indice_calidad_dbo'' ?c4"
  have l4: "indice_labels ?c4 = (if ''calidad_dqo'' \<in> set cols then [''indice_calidad_dqo''] else [])"
    using no(1) none by (simp add: indice_labels_map_cols_new)
  have "''indice_calidad_dbo'' \<notin> set ?c4"
    using no(2) by (simp add: set_map_cols)
  then have l5: "indice_labels ?c5 = indice_labels ?c4 @ (if ''calidad_dbo'' \<in> set cols then [''indice_calidad_dbo''] else [])"
    by (simp add: indice_labels_map_cols_new set_map_cols)
  have "''indice_calidad_sst'' \<notin> set ?c5"
    using no(3) by (simp add: set_map_cols)
  then have "indice_labels (ordinal_cols cols) =
      indice_labels ?c5 @ (if ''calidad_sst'' \<in> set cols then [''indice_calidad_sst''] else [])"
    by (simp add: ordinal_cols_def indice_labels_map_cols_new set_map_cols)
  then show ?thesis
    by (simp add: l4 l5)
qed

lemma getitems_ordinal_row_dqo:
  assumes "length r = length cols" "''indice_calidad_dqo'' \<notin> set cols" "''calidad_dqo'' \<in> set cols"
  shows "getitems (ordinal_cols cols) (ordinal_row cols r) ''indice_calidad_dqo'' =
           [series_map quality_map (cell_at cols r ''calidad_dqo'')]"
  using assms
  by (simp add: ordinal_row_def ordinal_cols_def Let_def length_map_row getitems_map_row_other
        getitems_map_row_new)

lemma getitems_ordinal_row_dbo:
  assumes "length r = length cols" "''indice_calidad_dbo'' \<notin> set cols" "''calidad_dbo'' \<in> set cols"
  shows "getitems (ordinal_cols cols) (ordinal_row cols r) ''indice_calidad_dbo'' =
           [series_map quality_map (cell_at cols r ''calidad_dbo'')]"
  using assms
  by (simp add: ordinal_row_def ordinal_cols_def Let_def length_map_row getitems_map_row_other
        getitems_map_row_new set_map_cols cell_at_map_row_other)

lemma getitems_ordinal_row_sst:
  assumes "length r = length cols" "''indice_calidad_sst'' \<notin> set cols" "''calidad_sst'' \<in> set cols"
  shows "getitems (ordinal_cols cols) (ordinal_row cols r) ''indice_calidad_sst'' =
           [series_map quality_map (cell_at cols r ''calidad_sst'')]"
  using assms
  by (simp add: ordinal_row_def ordinal_cols_def Let_def length_map_row getitems_map_row_other
        getitems_map_row_new set_map_cols cell_at_map_row_other)

lemma numbers_index_cells:
  assumes "length r = length cols" "\<forall>c \<in> set cols. \<not> startswith c ''indice_calidad_''"
  shows "numbers (select_cells (ordinal_cols cols) (indice_labels (ordinal_cols cols)) (ordinal_row cols r)) =
         present_codes cols r"
proof -
  note no = no_index_label [OF assms(2)]
  show ?thesis
    unfolding indice_labels_ordinal_cols [OF assms(2)] select_cells_def present_codes_def
    using assms(1) no
    by (simp add: numbers_append getitems_ordinal_row_dqo getitems_ordinal_row_dbo
          getitems_ordinal_row_sst series_map_quality split: option.split)
qed

lemma round_mean_cell:
  "round_cell (mean_cell cs) =
     (if numbers cs = [] then NaN else Num (round2 (sum_list (numbers cs) / of_nat (length (numbers cs)))))"
  by (simp add: round_cell_def mean_cell_def Let_def)

lemma set_derived_cols_category:
  "n \<noteq> ''indice_calidad_dqo'' \<Longrightarrow> n \<noteq> ''indice_calidad_dbo'' \<Longrightarrow> n \<noteq> ''indice_calidad_sst'' \<Longrightarrow>
   n \<noteq> ''indice_calidad_general'' \<Longrightarrow> n \<noteq> ''semaforo_numerico'' \<Longrightarrow>
   n \<in> set (derived_cols cols) \<longleftrightarrow> n \<in> set cols"
  by (simp add: derived_cols_def general_cols_def ordinal_cols_def set_map_cols)

lemma cell_at_derived_row_source:
  "length r = length cols \<Longrightarrow>
   n \<noteq> ''indice_calidad_dqo'' \<Longrightarrow> n \<noteq> ''indice_calidad_dbo'' \<Longrightarrow> n \<noteq> ''indice_calidad_sst'' \<Longrightarrow>
   n \<noteq> ''indice_calidad_general'' \<Longrightarrow> n \<noteq> ''semaforo_numerico'' \<Longrightarrow>
   cell_at (derived_cols cols) (derived_row cols r) n = cell_at cols r n"
  by (simp add: cell_at_derived_row_other cell_at_ordinal_row_other)

lemma present_codes_derived:
  "length r = length cols \<Longrightarrow> present_codes (derived_cols cols) (derived_row cols r) = present_codes cols r"
  by (simp add: present_codes_def set_derived_cols_category cell_at_derived_row_source)

lemma transform_Inr_D:
  assumes "transform_quality_data df = Inr out"
  shows "columns out = derived_cols (columns (cleaned_source df))"
    and "rows out = map (derived_row (columns (cleaned_source df))) (rows (cleaned_source df))"
    and "\<not> transform_raises (columns (cleaned_source df)) (rows (cleaned_source df))"
  using assms by (auto simp: transform_quality_data_eq split: if_splits)

lemma ordinal_stage_Inr_D:
  assumes "ordinal_stage df = Inr mid"
  shows "columns mid = ordinal_cols (columns (cleaned_source df))"
    and "rows mid = map (ordinal_row (columns (cleaned_source df))) (rows (cleaned_source df))"
  using assms by (auto simp: ordinal_stage_eq split: if_splits)

lemma length_rows_out:
  assumes "transform_quality_data df = Inr out"
  shows "length (rows out) = length (rows (cleaned_source df))"
  using transform_Inr_D(2) [OF assms] by simp

lemma nth_cleaned_source_length:
  "rectangular df \<Longrightarrow> i < length (rows (cleaned_source df)) \<Longrightarrow>
   length (rows (cleaned_source df) ! i) = length (columns (cleaned_source df))"
  by (rule rectangular_cleaned_source) simp_all

lemma set_ordinal_cols_source:
  "n \<in> set cols \<Longrightarrow> n \<in> set (ordinal_cols cols)"
  by (simp add: ordinal_cols_def set_map_cols)

lemma series_map_unknown:
  "c \<notin> {Str ''Excelente'', Str ''Buena calidad'', Str ''Aceptable'', Str ''Contaminada''} \<Longrightarrow>
   series_map quality_map c = NaN"
  by (cases c) (auto simp: series_map_def quality_map_def)

lemma getitems_map_row_dst_all:
  "length r = length cols \<Longrightarrow> src \<in> set cols \<Longrightarrow>
   set (getitems (map_cols src dst cols) (map_row src dst m cols r) dst) \<subseteq> {series_map m (cell_at cols r src)}"
  by (auto simp: map_row_def map_cols_def getitems_set_cells_same)

lemma getitems_ordinal_row_dqo_all:
  assumes "length r = length cols" "''calidad_dqo'' \<in> set cols"
  shows "set (getitems (ordinal_cols cols) (ordinal_row cols r) ''indice_calidad_dqo'') \<subseteq>
           {series_map quality_map (cell_at cols r ''calidad_dqo'')}"
  using assms getitems_map_row_dst_all [OF assms, of "''indice_calidad_dqo''" quality_map]
  by (simp add: ordinal_row_def ordinal_cols_def Let_def length_map_row getitems_map_row_other)

lemma getitems_ordinal_row_dbo_all:
  assumes "length r = length cols" "''calidad_dbo'' \<in> set cols"
  shows "set (getitems (ordinal_cols cols) (ordinal_row cols r) ''indice_calidad_dbo'') \<subseteq>
           {series_map quality_map (cell_at cols r ''calidad_dbo'')}"
proof -
  let ?c4 = "map_cols ''calidad_dqo'' ''indice_calidad_dqo'' cols"
  let ?r4 = "map_row ''calidad_dqo'' ''indice_calidad_dqo'' quality_map cols r"
  have l4: "length ?r4 = length ?c4"
    using assms(1) by (rule length_map_row)
  have m4: "''calidad_dbo'' \<in> set ?c4"
    using assms(2) by (simp add: set_map_cols)
  have "set (getitems (map_cols ''calidad_dbo'' ''indice_calidad_dbo'' ?c4)
               (map_row ''calidad_dbo'' ''indice_calidad_dbo'' quality_map ?c4 ?r4) ''indice_calidad_dbo'') \<subseteq>
        {series_map quality_map (cell_at ?c4 ?r4 ''calidad_dbo'')}"
    using l4 m4 by (rule getitems_map_row_dst_all)
  then show ?thesis
    using assms(1)
    by (simp add: ordinal_row_def ordinal_cols_def Let_def length_map_row getitems_map_row_other
          cell_at_map_row_other)
qed

lemma getitems_ordinal_row_sst_all:
  assumes "length r = length cols" "''calidad_sst'' \<in> set cols"
  shows "set (getitems (ordinal_cols cols) (ordinal_row cols r) ''indice_calidad_sst'') \<subseteq>
           {series_map quality_map (cell_at cols r ''calidad_sst'')}"
proof -
  let ?c4 = "map_cols ''calidad_dqo'' ''indice_calidad_dqo'' cols"
  let ?r4 = "map_row ''calidad_dqo'' ''indice_calidad_dqo'' quality_map cols r"
  let ?c5 = "map_cols ''calidad_dbo'' ''indice_calidad_dbo'' ?c4"
  let ?r5 = "map_row ''calidad_dbo'' ''indice_calidad_dbo'' quality_map ?c4 ?r4"
  have l4: "length ?r4 = length ?c4"
    using assms(1) by (rule length_map_row)
  have l5: "length ?r5 = length ?c5"
    using l4 by (rule length_map_row)
  have m5: "''calidad_sst'' \<in> set ?c5"
    using assms(2) by (simp add: set_map_cols)
  have "set (getitems (map_cols ''calidad_sst'' ''indice_calidad_sst'' ?c5)
               (map_row ''calidad_sst'' ''indice_calidad_sst'' quality_map ?c5 ?r5) ''indice_calidad_sst'') \<subseteq>
        {series_map quality_map (cell_at ?c5 ?r5 ''calidad_sst'')}"
    using l5 m5 by (rule getitems_map_row_dst_all)
  then show ?thesis
    using assms(1) l4
    by (simp add: ordinal_row_def ordinal_cols_def Let_def cell_at_map_row_other)
qed

lemma numbers_all_missing: "set cs \<subseteq> {NaN} \<Longrightarrow> numbers cs = []"
  by (induction cs) auto

lemma numbers_select_without:
  "set (getitems cols r dst) \<subseteq> {NaN} \<Longrightarrow>
   numbers (select_cells cols (filter (\<lambda>c. c \<noteq> dst) labels) r) = numbers (select_cells cols labels r)"
  by (induction labels) (auto simp: select_cells_def numbers_append numbers_all_missing)

lemma mean_cell_cong_numbers: "numbers cs = numbers cs' \<Longrightarrow> mean_cell cs = mean_cell cs'"
  by (simp add: mean_cell_def)

lemma ordinal_of_source:
  assumes "length r = length cols" "(src, dst) \<in> set category_pairs" "src \<in> set cols"
  shows "cell_at (ordinal_cols cols) (ordinal_row cols r) dst = series_map quality_map (cell_at cols r src)"
    and "set (getitems (ordinal_cols cols) (ordinal_row cols r) dst) \<subseteq> {series_map quality_map (cell_at cols r src)}"
  using assms
  by (auto simp: category_pairs_def cell_at_ordinal_row_dqo cell_at_ordinal_row_dbo cell_at_ordinal_row_sst
        dest: subsetD [OF getitems_ordinal_row_dqo_all] subsetD [OF getitems_ordinal_row_dbo_all]
              subsetD [OF getitems_ordinal_row_sst_all])

lemma map_column_unique_succeeds:
  "count_list (columns d) src = 1 \<Longrightarrow> \<exists>d'. map_column src dst m d = Inr d'"
  by (simp add: map_column_eq)

lemma keep_first_distinct_set:
  "distinct (keep_first seen xs) \<and> set (keep_first seen xs) = set xs - set seen"
  by (induction xs arbitrary: seen) auto

lemma length_keep_first: "length (keep_first [] xs) = card (set xs)"
  using keep_first_distinct_set [of "[]" xs] distinct_card [of "keep_first [] xs"] by simp

lemma set_getitems: "set (getitems cols r n) \<subseteq> set r"
  by (auto simp: getitems_def dest: set_zip_rightD)

lemma fill_cell_not_missing: "NaN \<notin> set (map fill_cell r)"
  by (auto simp: fill_cell_def)

lemma cleaned_source_not_missing: "r \<in> set (rows (cleaned_source df)) \<Longrightarrow> NaN \<notin> set r"
  using fill_cell_not_missing by (auto simp: rows_cleaned_source)

lemma category_dst_in_derived:
  "(src, dst) \<in> set category_pairs \<Longrightarrow> src \<in> set cols \<Longrightarrow> dst \<in> set (derived_cols cols)"
  by (auto simp: category_pairs_def derived_cols_def general_cols_def ordinal_cols_def set_map_cols)

lemma execute_skip: "raised ss \<noteq> None \<Longrightarrow> execute e s eff ss = ss"
  by (simp add: execute_def)

lemma execute_to_sql_skip: "raised ss \<noteq> None \<Longrightarrow> execute_to_sql e df ss = ss"
  by (auto simp: execute_to_sql_def execute_def)

lemma select_count_skip: "raised ss \<noteq> None \<Longrightarrow> select_count ss = ss"
  by (simp add: select_count_def)

lemma transaction_skip:
  "(\<And>s. raised s \<noteq> None \<Longrightarrow> body s = s) \<Longrightarrow> raised ss \<noteq> None \<Longrightarrow> transaction body ss = ss"
  by (simp add: transaction_def)

lemma trace_select_count: "trace (select_count ss) = trace ss"
  by (simp add: select_count_def)

lemma load_Some:
  "load e now (Some df) d = after_drop e df (setitem_scalar ''fecha_carga'' now df) (drop_step e d)"
  by (simp add: load_def after_drop_def drop_step_def Let_def)

lemma after_drop_skip: "raised s2 \<noteq> None \<Longrightarrow> after_drop e df dfl s2 = s2"
  by (simp add: after_drop_def Let_def execute_to_sql_skip transaction_skip execute_skip select_count_skip)

lemma drop_step_cases:
  "drop_step e d =
     (if fails e SelectVersion
      then \<lparr>db = d, trace = [], raised = Some OperationalError, counted = None\<rparr>
      else if fails e (DropView resumen_por_estado)
      then \<lparr>db = d, trace = [(SelectVersion, d)], raised = Some OperationalError, counted = None\<rparr>
      else if fails e (DropView calidad_por_periodo)
      then \<lparr>db = d, trace = [(SelectVersion, d), (DropView resumen_por_estado, d)],
            raised = Some OperationalError, counted = None\<rparr>
      else \<lparr>db = d\<lparr>views := filter (\<lambda>(n, q). n \<noteq> calidad_por_periodo)
                               (filter (\<lambda>(n, q). n \<noteq> resumen_por_estado) (views d))\<rparr>,
            trace = [(SelectVersion, d), (DropView resumen_por_estado, d),
                             (DropView calidad_por_periodo,
                              d\<lparr>views := filter (\<lambda>(n, q). n \<noteq> resumen_por_estado) (views d)\<rparr>)],
            raised = None, counted = None\<rparr>)"
  by (simp add: drop_step_def transaction_def execute_def drop_view_def Let_def)

lemma view_names_differ: "resumen_por_estado \<noteq> calidad_por_periodo"
  by (simp add: resumen_por_estado_def calidad_por_periodo_def)

lemma remaining_views_names:
  "resumen_por_estado \<notin> fst ` set (remaining_views d)" "calidad_por_periodo \<notin> fst ` set (remaining_views d)"
  by (auto simp: remaining_views_def)

lemma remaining_views_idem:
  "remaining_views (d\<lparr>views := remaining_views d\<rparr>) = remaining_views d"
  by (auto simp: remaining_views_def intro: filter_cong)

lemma drop_step_no_fail:
  "\<forall>s. \<not> fails e s \<Longrightarrow>
   drop_step e d = \<lparr>db = d\<lparr>views := remaining_views d\<rparr>,
                    trace = [(SelectVersion, d), (DropView resumen_por_estado, d),
                             (DropView calidad_por_periodo,
                              d\<lparr>views := filter (\<lambda>(n, q). n \<noteq> resumen_por_estado) (views d)\<rparr>)],
                    raised = None, counted = None\<rparr>"
  by (simp add: drop_step_cases remaining_views_def)

lemma execute_ok:
  "raised ss = None \<Longrightarrow> \<not> fails e s \<Longrightarrow> eff (db ss) = Inr d' \<Longrightarrow>
   execute e s eff ss = ss\<lparr>db := d', trace := trace ss @ [(s, db ss)]\<rparr>"
  by (simp add: execute_def)

lemma execute_refused:
  "raised ss = None \<Longrightarrow> \<not> fails e s \<Longrightarrow> eff (db ss) = Inl err \<Longrightarrow>
   execute e s eff ss = ss\<lparr>raised := Some err\<rparr>"
  by (simp add: execute_def)

lemma create_view_ok:
  "tbl d = Some t \<Longrightarrow> v \<notin> fst ` set (views d) \<Longrightarrow> set needed \<subseteq> set (columns t) \<Longrightarrow>
   create_view v q needed d = Inr (d\<lparr>views := views d @ [(v, q)]\<rparr>)"
  by (simp add: create_view_def)

lemma create_view_refused:
  "tbl d = Some t \<Longrightarrow> \<not> set needed \<subseteq> set (columns t) \<Longrightarrow>
   create_view v q needed d = Inl OperationalError"
  by (simp add: create_view_def)

lemma create_step_no_fail:
  assumes "\<forall>s. \<not> fails e s" "raised s3 = None" "tbl (db s3) = Some t"
      and "resumen_por_estado \<notin> fst ` set (views (db s3))"
      and "calidad_por_periodo \<notin> fst ` set (views (db s3))"
  shows "db (create_step e s3) =
           (if views_creatable t
            then (db s3)\<lparr>views := views (db s3) @ [(resumen_por_estado, resumen_por_estado_sql),
                                                    (calidad_por_periodo, calidad_por_periodo_sql)]\<rparr>
            else db s3)"
    and "raised (create_step e s3) = (if views_creatable t then None else Some OperationalError)"
    and "counted (create_step e s3) = counted s3"
proof -
  let ?nr = "[''estado'', ''indice_calidad_general'', ''semaforo'']"
  let ?nc = "[''periodo'', ''estado'', ''indice_calidad_general'']"
  let ?er = "execute e (CreateView resumen_por_estado)
               (create_view resumen_por_estado resumen_por_estado_sql ?nr) s3"
  let ?ec = "execute e (CreateView calidad_por_periodo)
               (create_view calidad_por_periodo calidad_por_periodo_sql ?nc) ?er"
  have unfold: "create_step e s3 = (if raised ?ec \<noteq> None then ?ec\<lparr>db := db s3\<rparr> else ?ec)"
    by (simp add: create_step_def transaction_def Let_def)
  have nf: "\<not> fails e (CreateView resumen_por_estado)" "\<not> fails e (CreateView calidad_por_periodo)"
    using assms(1) by simp_all
  consider (r_bad) "\<not> set ?nr \<subseteq> set (columns t)"
    | (c_bad) "set ?nr \<subseteq> set (columns t)" "\<not> set ?nc \<subseteq> set (columns t)"
    | (ok) "set ?nr \<subseteq> set (columns t)" "set ?nc \<subseteq> set (columns t)"
    by blast
  then have "db (create_step e s3) =
           (if views_creatable t
            then (db s3)\<lparr>views := views (db s3) @ [(resumen_por_estado, resumen_por_estado_sql),
                                                    (calidad_por_periodo, calidad_por_periodo_sql)]\<rparr>
            else db s3) \<and>
        raised (create_step e s3) = (if views_creatable t then None else Some OperationalError) \<and>
        counted (create_step e s3) = counted s3"
  proof cases
    case r_bad
    have cr: "create_view resumen_por_estado resumen_por_estado_sql ?nr (db s3) = Inl OperationalError"
      using assms(3) r_bad by (rule create_view_refused)
    have er: "?er = s3\<lparr>raised := Some OperationalError\<rparr>"
      by (rule execute_refused [where eff = "create_view resumen_por_estado resumen_por_estado_sql ?nr",
            OF assms(2) nf(1) cr])
    have "?ec = ?er"
      unfolding er by (rule execute_skip) simp
    then have fin: "?ec = s3\<lparr>raised := Some OperationalError\<rparr>"
      using er by simp
    have "\<not> views_creatable t"
      using r_bad unfolding views_creatable_def by blast
    then show ?thesis
      by (simp add: unfold fin)
  next
    case c_bad
    have cr: "create_view resumen_por_estado resumen_por_estado_sql ?nr (db s3) =
            Inr ((db s3)\<lparr>views := views (db s3) @ [(resumen_por_estado, resumen_por_estado_sql)]\<rparr>)"
      using assms(3,4) c_bad(1) by (rule create_view_ok)
    have er: "?er = s3\<lparr>db := (db s3)\<lparr>views := views (db s3) @ [(resumen_por_estado, resumen_por_estado_sql)]\<rparr>,
                          trace := trace s3 @ [(CreateView resumen_por_estado, db s3)]\<rparr>"
      by (rule execute_ok [where eff = "create_view resumen_por_estado resumen_por_estado_sql ?nr",
            OF assms(2) nf(1) cr])
    have "create_view calidad_por_periodo calidad_por_periodo_sql ?nc (db ?er) = Inl OperationalError"
      unfolding er using assms(3) c_bad(2) by (intro create_view_refused [where t = t]) simp_all
    then have ec: "?ec = ?er\<lparr>raised := Some OperationalError\<rparr>"
      using nf(2) assms(2)
      by (intro execute_refused [where eff = "create_view calidad_por_periodo calidad_por_periodo_sql ?nc"])
         (simp_all add: er)
    have fin: "?ec = s3\<lparr>db := (db s3)\<lparr>views := views (db s3) @ [(resumen_por_estado, resumen_por_estado_sql)]\<rparr>,
                          trace := trace s3 @ [(CreateView resumen_por_estado, db s3)],
                          raised := Some OperationalError\<rparr>"
      using ec er by simp
    have "\<not> views_creatable t"
      using c_bad(2) unfolding views_creatable_def by blast
    then show ?thesis
      by (simp add: unfold fin)
  next
    case ok
    have cr: "create_view resumen_por_estado resumen_por_estado_sql ?nr (db s3) =
            Inr ((db s3)\<lparr>views := views (db s3) @ [(resumen_por_estado, resumen_por_estado_sql)]\<rparr>)"
      using assms(3,4) ok(1) by (rule create_view_ok)
    have er: "?er = s3\<lparr>db := (db s3)\<lparr>views := views (db s3) @ [(resumen_por_estado, resumen_por_estado_sql)]\<rparr>,
                          trace := trace s3 @ [(CreateView resumen_por_estado, db s3)]\<rparr>"
      by (rule execute_ok [where eff = "create_view resumen_por_estado resumen_por_estado_sql ?nr",
            OF assms(2) nf(1) cr])
    have "create_view calidad_por_periodo calidad_por_periodo_sql ?nc (db ?er) =
            Inr ((db ?er)\<lparr>views := views (db ?er) @ [(calidad_por_periodo, calidad_por_periodo_sql)]\<rparr>)"
      unfolding er using assms(3,5) ok(2) view_names_differ
      by (intro create_view_ok [where t = t]) auto
    then have ec: "?ec = ?er\<lparr>db := (db ?er)\<lparr>views := views (db ?er) @ [(calidad_por_periodo, calidad_por_periodo_sql)]\<rparr>,
                            trace := trace ?er @ [(CreateView calidad_por_periodo, db ?er)]\<rparr>"
      using nf(2) assms(2)
      by (intro execute_ok [where eff = "create_view calidad_por_periodo calidad_por_periodo_sql ?nc"])
         (simp_all add: er)
    have fin: "?ec = s3\<lparr>db := (db s3)\<lparr>views := views (db s3) @
                                 [(resumen_por_estado, resumen_por_estado_sql),
                                  (calidad_por_periodo, calidad_por_periodo_sql)]\<rparr>,
                          trace := trace s3 @
                            [(CreateView resumen_por_estado, db s3),
                             (CreateView calidad_por_periodo,
                              (db s3)\<lparr>views := views (db s3) @ [(resumen_por_estado, resumen_por_estado_sql)]\<rparr>)]\<rparr>"
      using ec er by simp
    have "views_creatable t"
      using ok unfolding views_creatable_def by blast
    then show ?thesis
      using assms(2) by (simp add: unfold fin)
  qed
  then show "db (create_step e s3) =
           (if views_creatable t
            then (db s3)\<lparr>views := views (db s3) @ [(resumen_por_estado, resumen_por_estado_sql),
                                                    (calidad_por_periodo, calidad_por_periodo_sql)]\<rparr>
            else db s3)"
    and "raised (create_step e s3) = (if views_creatable t then None else Some OperationalError)"
    and "counted (create_step e s3) = counted s3"
    by simp_all
qed

lemma after_drop_create_step:
  "after_drop e df dfl s2 =
     (let s5 = select_count (execute e SelectCount Inr (create_step e (execute_to_sql e dfl s2)))
      in if ''semaforo'' \<in> set (columns df) then execute e SelectStats Inr s5 else s5)"
  by (simp add: after_drop_def create_step_def Let_def)

lemma execute_Inr_fields:
  "db (execute e s Inr ss) = db ss"
  "\<not> fails e s \<Longrightarrow> raised (execute e s Inr ss) = raised ss"
  "counted (execute e s Inr ss) = counted ss"
  by (simp_all add: execute_def)

lemma select_count_fields:
  "db (select_count ss) = db ss"
  "raised (select_count ss) = raised ss"
  "counted (select_count ss) =
     (if raised ss = None then map_option (\<lambda>t. length (rows t)) (tbl (db ss)) else counted ss)"
  by (simp_all add: select_count_def)

lemma tail_fields:
  assumes "\<forall>s. \<not> fails e s"
  shows "db (after_drop e df dfl s2) = db (create_step e (execute_to_sql e dfl s2))"
    and "raised (after_drop e df dfl s2) = raised (create_step e (execute_to_sql e dfl s2))"
  using assms by (simp_all add: after_drop_create_step Let_def execute_Inr_fields select_count_fields)

lemma execute_to_sql_no_fail:
  assumes "\<forall>s. \<not> fails e s" "raised s2 = None"
  shows "execute_to_sql e dfl s2 =
           (if tbl (db s2) \<noteq> None \<and> views (db s2) \<noteq> [] then s2\<lparr>raised := Some OperationalError\<rparr>
            else s2\<lparr>db := (db s2)\<lparr>tbl := Some dfl\<rparr>, trace := trace s2 @ [(ReplaceTable, db s2)]\<rparr>)"
  using assms by (simp add: execute_to_sql_def execute_def replace_table_def)

lemma create_step_skip: "raised s3 \<noteq> None \<Longrightarrow> create_step e s3 = s3"
  unfolding create_step_def by (rule transaction_skip) (simp_all add: execute_skip)

text \<open>The database and the outcome of a load that nothing from outside disturbs.\<close>

lemma load_no_fail:
  assumes "\<forall>s. \<not> fails e s"
  shows "db (load e now (Some df) d) =
           (if tbl d \<noteq> None \<and> remaining_views d \<noteq> [] then d\<lparr>views := remaining_views d\<rparr>
            else if views_creatable (setitem_scalar ''fecha_carga'' now df)
            then \<lparr>tbl = Some (setitem_scalar ''fecha_carga'' now df),
                  views = remaining_views d @ [(resumen_por_estado, resumen_por_estado_sql),
                                               (calidad_por_periodo, calidad_por_periodo_sql)]\<rparr>
            else \<lparr>tbl = Some (setitem_scalar ''fecha_carga'' now df), views = remaining_views d\<rparr>)"
    and "raised (load e now (Some df) d) =
           (if tbl d \<noteq> None \<and> remaining_views d \<noteq> [] then Some OperationalError
            else if views_creatable (setitem_scalar ''fecha_carga'' now df) then None
            else Some OperationalError)"
proof -
  let ?dfl = "setitem_scalar ''fecha_carga'' now df"
  let ?s2 = "drop_step e d"
  let ?s3 = "execute_to_sql e ?dfl ?s2"
  have s2: "?s2 = \<lparr>db = d\<lparr>views := remaining_views d\<rparr>,
                    trace = [(SelectVersion, d), (DropView resumen_por_estado, d),
                             (DropView calidad_por_periodo,
                              d\<lparr>views := filter (\<lambda>(n, q). n \<noteq> resumen_por_estado) (views d)\<rparr>)],
                    raised = None, counted = None\<rparr>"
    using assms by (rule drop_step_no_fail)
  have r2: "raised ?s2 = None" and d2: "db ?s2 = d\<lparr>views := remaining_views d\<rparr>"
    by (simp_all add: s2)
  have s3: "?s3 = (if tbl d \<noteq> None \<and> remaining_views d \<noteq> [] then ?s2\<lparr>raised := Some OperationalError\<rparr>
                   else ?s2\<lparr>db := (db ?s2)\<lparr>tbl := Some ?dfl\<rparr>, trace := trace ?s2 @ [(ReplaceTable, db ?s2)]\<rparr>)"
    using execute_to_sql_no_fail [OF assms r2, of ?dfl] by (simp add: d2)
  have both: "db (create_step e ?s3) =
           (if tbl d \<noteq> None \<and> remaining_views d \<noteq> [] then d\<lparr>views := remaining_views d\<rparr>
            else if views_creatable ?dfl
            then \<lparr>tbl = Some ?dfl,
                  views = remaining_views d @ [(resumen_por_estado, resumen_por_estado_sql),
                                               (calidad_por_periodo, calidad_por_periodo_sql)]\<rparr>
            else \<lparr>tbl = Some ?dfl, views = remaining_views d\<rparr>) \<and>
        raised (create_step e ?s3) =
           (if tbl d \<noteq> None \<and> remaining_views d \<noteq> [] then Some OperationalError
            else if views_creatable ?dfl then None else Some OperationalError)"
  proof (cases "tbl d \<noteq> None \<and> remaining_views d \<noteq> []")
    case True
    then have eq: "?s3 = ?s2\<lparr>raised := Some OperationalError\<rparr>"
      using s3 by auto
    have "create_step e ?s3 = ?s3"
      by (rule create_step_skip) (simp add: eq)
    then show ?thesis
      using True by (simp add: eq d2)
  next
    case False
    then have eq: "?s3 = ?s2\<lparr>db := (db ?s2)\<lparr>tbl := Some ?dfl\<rparr>, trace := trace ?s2 @ [(ReplaceTable, db ?s2)]\<rparr>"
      using s3 by auto
    have r3: "raised ?s3 = None" and t3: "tbl (db ?s3) = Some ?dfl"
      and v3: "views (db ?s3) = remaining_views d"
      by (simp_all add: eq r2 d2)
    have n3: "resumen_por_estado \<notin> fst ` set (views (db ?s3))"
             "calidad_por_periodo \<notin> fst ` set (views (db ?s3))"
      unfolding v3 by (rule remaining_views_names)+
    have d3: "db ?s3 = \<lparr>tbl = Some ?dfl, views = remaining_views d\<rparr>"
      by (simp add: eq d2)
    show ?thesis
      using False
      by (auto simp: create_step_no_fail(1,2) [OF assms r3 t3 n3] d3)
  qed
  show "db (load e now (Some df) d) =
           (if tbl d \<noteq> None \<and> remaining_views d \<noteq> [] then d\<lparr>views := remaining_views d\<rparr>
            else if views_creatable ?dfl
            then \<lparr>tbl = Some ?dfl,
                  views = remaining_views d @ [(resumen_por_estado, resumen_por_estado_sql),
                                               (calidad_por_periodo, calidad_por_periodo_sql)]\<rparr>
            else \<lparr>tbl = Some ?dfl, views = remaining_views d\<rparr>)"
    using both by (simp add: load_Some tail_fields(1) [OF assms])
  show "raised (load e now (Some df) d) =
           (if tbl d \<noteq> None \<and> remaining_views d \<noteq> [] then Some OperationalError
            else if views_creatable ?dfl then None
            else Some OperationalError)"
    using both by (simp add: load_Some tail_fields(2) [OF assms])
qed

lemma columns_setitem_scalar: "columns (setitem_scalar n v df) = new_columns (columns df) n"
  by (simp add: setitem_scalar_def setitem_def)

lemma length_rows_setitem_scalar: "length (rows (setitem_scalar n v df)) = length (rows df)"
  by (simp add: setitem_scalar_def setitem_def)

lemma views_creatable_now:
  "views_creatable (setitem_scalar n v df) = views_creatable (setitem_scalar n v' df)"
  by (simp only: views_creatable_def columns_setitem_scalar)

lemma remaining_views_created:
  "remaining_views \<lparr>tbl = t, views = [(resumen_por_estado, q), (calidad_por_periodo, q')]\<rparr> = []"
  by (simp add: remaining_views_def view_names_differ)

lemma remaining_views_Nil: "views d = [] \<Longrightarrow> remaining_views d = []"
  by (simp add: remaining_views_def)

lemma list_all_replicate: "list_all P (replicate n x) = (n = 0 \<or> P x)"
  by (induction n) auto

lemma nota_not_numeral: "parse_number nota = None"
proof -
  have eq: "nota = CHR ''a'' # replicate 599 (CHR ''a'')"
    by (simp add: nota_def numeral_eq_Suc)
  show ?thesis
    unfolding eq by (simp add: parse_number_def parse_unsigned_def Let_def is_digit_def)
qed

lemma field_values:
  "parse_number ''1.50'' = Some (3 / 2)" "parse_number ''1.5'' = Some (3 / 2)"
  "parse_number ''2.5'' = Some (5 / 2)" "parse_number ''x'' = None"
  by code_simp+

lemma chunks_of_two:
  assumes "length xs = n" "0 < n" "ys \<noteq> []" "length ys \<le> n"
  shows "chunks_of n (xs @ ys) = [xs, ys]"
proof -
  have "chunks_of n [] = ([] :: 'a list list)"
    by (subst chunks_of.simps) simp
  then have "chunks_of n ys = [ys]"
    using assms by (subst chunks_of.simps) simp
  then show ?thesis
    using assms by (subst chunks_of.simps) auto
qed

lemma infer_first_batch:
  "infer_types ([Str ''1.50'', Str nota] # [Str ''1.5'', Str nota] # replicate 9998 [Str ''2.5'', Str nota]) =
     [Num (3 / 2), Str nota] # [Num (3 / 2), Str nota] # replicate 9998 [Num (5 / 2), Str nota]"
proof -
  let ?rws = "[Str ''1.50'', Str nota] # [Str ''1.5'', Str nota] # replicate 9998 [Str ''2.5'', Str nota]"
  have c0: "numeric_column ?rws 0"
    by (simp add: numeric_column_def list_all_replicate is_numeric_field_def field_values)
  have c1: "\<not> numeric_column ?rws 1"
    by (simp add: numeric_column_def is_numeric_field_def nota_not_numeral)
  have z: "zip [0..<length [a, b]] [a, b] = [(0, a), (Suc 0, b)]" for a b :: cell
    by (simp add: upt_rec)
  show ?thesis
    unfolding infer_types_def
    using c0 c1 by (simp add: z to_number_def field_values)
qed

lemma pair_zip: "zip [0..<length [a, b]] [a, b] = [(0, a), (Suc 0, b)]"
  by (simp add: upt_rec)

lemma infer_last_batch:
  "infer_types [[Str ''x'', Str nota]] = [[Str ''x'', Str nota]]"
proof -
  have "\<not> numeric_column [[Str ''x'', Str nota]] 0" "\<not> numeric_column [[Str ''x'', Str nota]] 1"
    by (simp_all add: numeric_column_def is_numeric_field_def field_values nota_not_numeral)
  then show ?thesis
    unfolding infer_types_def by (simp add: pair_zip)
qed

lemma infer_whole:
  "infer_types ([Str ''1.50'', Str nota] # [Str ''1.5'', Str nota] #
                replicate 9998 [Str ''2.5'', Str nota] @ [[Str ''x'', Str nota]]) =
     [Str ''1.50'', Str nota] # [Str ''1.5'', Str nota] #
     replicate 9998 [Str ''2.5'', Str nota] @ [[Str ''x'', Str nota]]"
proof -
  let ?rws = "[Str ''1.50'', Str nota] # [Str ''1.5'', Str nota] #
              replicate 9998 [Str ''2.5'', Str nota] @ [[Str ''x'', Str nota]]"
  have c0: "\<not> numeric_column ?rws 0"
    by (simp add: numeric_column_def is_numeric_field_def field_values)
  have c1: "\<not> numeric_column ?rws 1"
    by (simp add: numeric_column_def is_numeric_field_def nota_not_numeral)
  show ?thesis
    unfolding infer_types_def
    using c0 c1 by (simp add: pair_zip)
qed

lemma trace_execute_other:
  "s \<noteq> ReplaceTable \<Longrightarrow>
   \<exists>ys. trace (execute e s eff ss) = trace ss @ ys \<and> (\<forall>d'. (ReplaceTable, d') \<notin> set ys)"
  by (cases "eff (db ss)") (simp_all add: execute_def)

lemma trace_execute_to_sql_found:
  "\<exists>ys. trace (execute_to_sql e df ss) = trace ss @ ys \<and> (\<forall>d'. (ReplaceTable, d') \<in> set ys \<longrightarrow> d' = db ss)"
  by (cases "replace_table df (db ss)") (simp_all add: execute_to_sql_def execute_def)

lemma trace_transaction_where:
  "(\<And>s. \<exists>ys. trace (body s) = trace s @ ys \<and> P ys) \<Longrightarrow>
   \<exists>ys. trace (transaction body ss) = trace ss @ ys \<and> P ys"
  by (simp add: transaction_def Let_def)

lemma trace_create_step:
  "\<exists>ys. trace (create_step e s3) = trace s3 @ ys \<and> (\<forall>d'. (ReplaceTable, d') \<notin> set ys)"
  unfolding create_step_def
proof (rule trace_transaction_where)
  fix s
  let ?er = "execute e (CreateView resumen_por_estado)
               (create_view resumen_por_estado resumen_por_estado_sql
                  [''estado'', ''indice_calidad_general'', ''semaforo'']) s"
  obtain a where a: "trace ?er = trace s @ a" "\<forall>d'. (ReplaceTable, d') \<notin> set a"
    using trace_execute_other [of "CreateView resumen_por_estado"] by blast
  obtain b where b: "trace (execute e (CreateView calidad_por_periodo)
                (create_view calidad_por_periodo calidad_por_periodo_sql
                   [''periodo'', ''estado'', ''indice_calidad_general'']) ?er) = trace ?er @ b"
      "\<forall>d'. (ReplaceTable, d') \<notin> set b"
    using trace_execute_other [of "CreateView calidad_por_periodo"] by blast
  show "\<exists>ys. trace (execute e (CreateView calidad_por_periodo)
                (create_view calidad_por_periodo calidad_por_periodo_sql
                   [''periodo'', ''estado'', ''indice_calidad_general'']) ?er) = trace s @ ys \<and>
             (\<forall>d'. (ReplaceTable, d') \<notin> set ys)"
    using a b by (intro exI [of _ "a @ b"]) simp
qed

lemma trace_after_drop_found:
  "\<exists>ys. trace (after_drop e df dfl s2) = trace s2 @ ys \<and>
        (\<forall>d'. (ReplaceTable, d') \<in> set ys \<longrightarrow> d' = db s2)"
proof -
  let ?s3 = "execute_to_sql e dfl s2"
  let ?s4 = "create_step e ?s3"
  let ?s5 = "select_count (execute e SelectCount Inr ?s4)"
  obtain y3 where y3: "trace ?s3 = trace s2 @ y3" "\<forall>d'. (ReplaceTable, d') \<in> set y3 \<longrightarrow> d' = db s2"
    using trace_execute_to_sql_found by blast
  obtain y4 where y4: "trace ?s4 = trace ?s3 @ y4" "\<forall>d'. (ReplaceTable, d') \<notin> set y4"
    using trace_create_step by blast
  obtain y5 where y5: "trace ?s5 = trace ?s4 @ y5" "\<forall>d'. (ReplaceTable, d') \<notin> set y5"
    using trace_execute_other [of SelectCount e Inr ?s4] by (auto simp: trace_select_count)
  obtain y6 where y6: "trace (execute e SelectStats Inr ?s5) = trace ?s5 @ y6"
      "\<forall>d'. (ReplaceTable, d') \<notin> set y6"
    using trace_execute_other [of SelectStats e Inr ?s5] by auto
  show ?thesis
  proof (cases "''semaforo'' \<in> set (columns df)")
    case True
    then have "trace (after_drop e df dfl s2) = trace s2 @ (y3 @ y4 @ y5 @ y6)"
      using y3(1) y4(1) y5(1) y6(1) by (simp add: after_drop_create_step Let_def)
    then show ?thesis
      using y3(2) y4(2) y5(2) y6(2) by (intro exI [of _ "y3 @ y4 @ y5 @ y6"]) auto
  next
    case False
    then have "trace (after_drop e df dfl s2) = trace s2 @ (y3 @ y4 @ y5)"
      using y3(1) y4(1) y5(1) by (simp add: after_drop_create_step Let_def)
    then show ?thesis
      using y3(2) y4(2) y5(2) by (intro exI [of _ "y3 @ y4 @ y5"]) auto
  qed
qed

lemma remaining_views_filter:
  "remaining_views d =
     filter (\<lambda>(n, q). n \<noteq> resumen_por_estado \<and> n \<noteq> calidad_por_periodo) (views d)"
  by (auto simp: remaining_views_def intro: filter_cong)

section \<open>Extract\<close>

text \<open>
  C2, as the code has it. The extract stage raises the missing-file error exactly when
  the raw file does not exist. A file that exists passes whatever its size, the empty
  file included: the stage returns its size in bytes, and the result is the same
  whatever the file holds, so nothing of its content is read.
\<close>

theorem extract_contract:
  "(fs RAW_FILE = None \<longrightarrow> extract_stage fs = Inl FileNotFoundError) \<and>
   (fs RAW_FILE = Some f \<longrightarrow>
      extract_stage fs = Inr (file_size f) \<and>
      extract_stage (fs(RAW_FILE \<mapsto> f\<lparr>records := t\<rparr>)) = extract_stage fs)"
  by (simp add: extract_stage_def)

theorem extract_contract_witness:
  "extract_stage (\<lambda>p. None) = Inl FileNotFoundError \<and>
   extract_stage [RAW_FILE \<mapsto> \<lparr>file_size = 2048, records = \<lparr>columns = [''estado''], rows = [[Str ''Sonora'']]\<rparr>\<rparr>] = Inr 2048 \<and>
   extract_stage [RAW_FILE \<mapsto> \<lparr>file_size = 2048, records = \<lparr>columns = [], rows = []\<rparr>\<rparr>] = Inr 2048"
  using extract_contract [of "\<lambda>p. None"]
        extract_contract [of "[RAW_FILE \<mapsto> \<lparr>file_size = 2048, records = \<lparr>columns = [''estado''], rows = [[Str ''Sonora'']]\<rparr>\<rparr>]"
                             "\<lparr>file_size = 2048, records = \<lparr>columns = [''estado''], rows = [[Str ''Sonora'']]\<rparr>\<rparr>"
                             "\<lparr>columns = [], rows = []\<rparr>"]
  by simp

text \<open>
  C2 as worded asks for a failure on an empty file. The raw file exists here and has
  zero bytes; the stage succeeds and reports the size 0.
\<close>

theorem extract_accepts_empty_file:
  "extract_stage (\<lambda>p. if p = RAW_FILE then Some \<lparr>file_size = 0, records = \<lparr>columns = [], rows = []\<rparr>\<rparr> else None) = Inr 0 \<and>
   extract_stage (\<lambda>p. if p = RAW_FILE then Some \<lparr>file_size = 0, records = \<lparr>columns = [], rows = []\<rparr>\<rparr> else None) \<noteq> Inl FileNotFoundError"
  by (simp add: extract_stage_def)

section \<open>Order of the cleaning steps\<close>


section \<open>No category column, no general index\<close>

text \<open>
  C9, as the code has it. When, after the labels are normalised, the table has none of
  \<open>calidad_dqo\<close>, \<open>calidad_dbo\<close>, \<open>calidad_sst\<close>, no label that starts with
  \<open>indice_calidad_\<close> and at most one label \<open>semaforo\<close>, the transform returns a table, and
  that table has no column \<open>indice_calidad_general\<close>.
\<close>

theorem no_category_no_general_index:
  assumes "''calidad_dqo'' \<notin> set (map normalize_name (columns df))"
      and "''calidad_dbo'' \<notin> set (map normalize_name (columns df))"
      and "''calidad_sst'' \<notin> set (map normalize_name (columns df))"
      and "\<forall>c \<in> set (columns df). \<not> startswith (normalize_name c) ''indice_calidad_''"
      and "count_list (map normalize_name (columns df)) ''semaforo'' \<le> 1"
    shows "\<exists>out. transform_quality_data df = Inr out \<and>
                 ''indice_calidad_general'' \<notin> set (columns out)"
proof -
  let ?cols = "columns (cleaned_source df)"
  have cols: "?cols = map normalize_name (columns df)"
    by (rule columns_cleaned_source)
  have none: "indice_labels ?cols = []"
    using assms(4) by (simp add: cols indice_labels_none)
  have oc: "ordinal_cols ?cols = ?cols"
    using assms(1-3) by (simp add: cols ordinal_cols_def map_cols_def)
  have gc: "general_cols ?cols = ?cols"
    using none by (simp add: general_cols_def)
  have "\<forall>c \<in> set ?cols. \<not> startswith c ''indice_calidad_''"
    using assms(4) by (simp add: cols)
  then have gen: "''indice_calidad_general'' \<notin> set ?cols"
    by (rule no_index_label(4))
  have gen8: "''indice_calidad_general'' \<notin> set (derived_cols ?cols)"
    using gen by (simp add: derived_cols_def oc gc set_map_cols)
  have sem: "''semaforo'' \<in> set ?cols \<Longrightarrow> count_list ?cols ''semaforo'' = 1"
    using assms(5) by (simp add: cols count_one_of_member)
  have "\<not> ordinal_raises ?cols"
    using assms(1-3) by (simp add: cols ordinal_raises_def map_cols_def)
  then have "\<not> transform_raises ?cols (rows (cleaned_source df))"
    using none gen8 sem by (auto simp: transform_raises_def Let_def oc gc)
  then show ?thesis
    using gen8 by (simp add: transform_quality_data_eq)
qed

theorem no_category_no_general_index_witness:
  "\<exists>out. transform_quality_data
            \<lparr>columns = [''ESTADO'', '' Semaforo ''], rows = [[Str ''Sonora'', Str ''VERDE'']]\<rparr> = Inr out \<and>
         ''indice_calidad_general'' \<notin> set (columns out)"
proof -
  let ?df = "\<lparr>columns = [''ESTADO'', '' Semaforo ''], rows = [[Str ''Sonora'', Str ''VERDE'']]\<rparr>"
  have n: "map normalize_name (columns ?df) = [''estado'', ''semaforo'']"
    by code_simp
  have h1: "''calidad_dqo'' \<notin> set (map normalize_name (columns ?df))"
    unfolding n by simp
  have h2: "''calidad_dbo'' \<notin> set (map normalize_name (columns ?df))"
    unfolding n by simp
  have h3: "''calidad_sst'' \<notin> set (map normalize_name (columns ?df))"
    unfolding n by simp
  have h4: "\<forall>c \<in> set (columns ?df). \<not> startswith (normalize_name c) ''indice_calidad_''"
    by code_simp
  have h5: "count_list (map normalize_name (columns ?df)) ''semaforo'' \<le> 1"
    unfolding n by simp
  show ?thesis
    using no_category_no_general_index [OF h1 h2 h3 h4 h5] .
qed

text \<open>
  C9 as worded promises success for every table without category and index columns.
  Two source labels that differ only in case both normalise to \<open>semaforo\<close>; the
  traffic-light mapping then finds a frame where it expects one column, and raises.
\<close>

theorem repeated_semaforo_label_raises:
  "map normalize_name [''Semaforo'', ''semaforo''] = [''semaforo'', ''semaforo''] \<and>
   \<not> startswith ''semaforo'' ''indice_calidad_'' \<and>
   transform_quality_data
     \<lparr>columns = [''Semaforo'', ''semaforo''], rows = [[Str ''VERDE'', Str ''ROJO'']]\<rparr> = Inl TypeError"
  by code_simp

section \<open>The general index\<close>

text \<open>
  C1, as the code has it. When no label of the source starts with \<open>indice_calidad_\<close>
  once normalised, and the cleaned table has at least one of the three category columns,
  the table has the column \<open>indice_calidad_general\<close> and in every row its value is the
  mean, rounded to two decimals, of the ordinal codes of the categories the row has
  (missing when it has none).
\<close>

theorem general_index_is_mean_of_present_codes:
  assumes "rectangular df"
      and "\<forall>c \<in> set (columns df). \<not> startswith (normalize_name c) ''indice_calidad_''"
      and "transform_quality_data df = Inr out"
      and "''calidad_dqo'' \<in> set (columns out) \<or> ''calidad_dbo'' \<in> set (columns out) \<or>
           ''calidad_sst'' \<in> set (columns out)"
      and "r \<in> set (rows out)"
    shows "''indice_calidad_general'' \<in> set (columns out) \<and>
           cell_at (columns out) r ''indice_calidad_general'' = spec_general (columns out) r"
proof -
  let ?cols = "columns (cleaned_source df)"
  note out = transform_Inr_D [OF assms(3)]
  obtain r0 where r0: "r0 \<in> set (rows (cleaned_source df))" and r: "r = derived_row ?cols r0"
    using assms(5) out(2) by auto
  have len: "length r0 = length ?cols"
    using assms(1) r0 by (rule rectangular_cleaned_source)
  have no: "\<forall>c \<in> set ?cols. \<not> startswith c ''indice_calidad_''"
    using assms(2) by (simp add: columns_cleaned_source)
  have some: "''calidad_dqo'' \<in> set ?cols \<or> ''calidad_dbo'' \<in> set ?cols \<or> ''calidad_sst'' \<in> set ?cols"
    using assms(4) by (simp add: out(1) set_derived_cols_category)
  then have labels: "indice_labels (ordinal_cols ?cols) \<noteq> []"
    by (auto simp: indice_labels_ordinal_cols [OF no])
  then have "''indice_calidad_general'' \<in> set (columns out)"
    by (simp add: out(1) derived_cols_def general_cols_def set_map_cols)
  moreover have "cell_at (columns out) r ''indice_calidad_general'' = spec_general (columns out) r"
    by (simp add: out(1) r cell_at_derived_row_general [OF len labels] round_mean_cell
          numbers_index_cells [OF len no] spec_general_def Let_def present_codes_derived [OF len])
  ultimately show ?thesis by simp
qed

theorem general_index_is_mean_of_present_codes_witness:
  "''indice_calidad_general'' \<in> set [''calidad_dqo'', ''calidad_dbo'', ''indice_calidad_dqo'',
      ''indice_calidad_dbo'', ''indice_calidad_general''] \<and>
   cell_at [''calidad_dqo'', ''calidad_dbo'', ''indice_calidad_dqo'', ''indice_calidad_dbo'',
            ''indice_calidad_general'']
     [Str ''Excelente'', Str ''Contaminada'', Num 1, Num 4, Num (5 / 2)] ''indice_calidad_general'' =
   spec_general [''calidad_dqo'', ''calidad_dbo'', ''indice_calidad_dqo'', ''indice_calidad_dbo'',
                 ''indice_calidad_general'']
     [Str ''Excelente'', Str ''Contaminada'', Num 1, Num 4, Num (5 / 2)] \<and>
   spec_general [''calidad_dqo'', ''calidad_dbo'', ''indice_calidad_dqo'', ''indice_calidad_dbo'',
                 ''indice_calidad_general'']
     [Str ''Excelente'', Str ''Contaminada'', Num 1, Num 4, Num (5 / 2)] = Num (5 / 2)"
proof -
  let ?df = "\<lparr>columns = [''CALIDAD_DQO'', '' Calidad DBO''],
              rows = [[Str ''Excelente'', Str ''Contaminada'']]\<rparr>"
  let ?cols = "[''calidad_dqo'', ''calidad_dbo'', ''indice_calidad_dqo'', ''indice_calidad_dbo'',
                ''indice_calidad_general'']"
  let ?r = "[Str ''Excelente'', Str ''Contaminada'', Num 1, Num 4, Num (5 / 2)]"
  let ?out = "\<lparr>columns = ?cols, rows = [?r]\<rparr>"
  have h1: "rectangular ?df"
    by (simp add: rectangular_def)
  have h2: "\<forall>c \<in> set (columns ?df). \<not> startswith (normalize_name c) ''indice_calidad_''"
    by code_simp
  have h3: "transform_quality_data ?df = Inr ?out"
    by code_simp
  have h4: "''calidad_dqo'' \<in> set (columns ?out) \<or> ''calidad_dbo'' \<in> set (columns ?out) \<or>
            ''calidad_sst'' \<in> set (columns ?out)"
    by simp
  have h5: "?r \<in> set (rows ?out)"
    by simp
  have v: "spec_general ?cols ?r = Num (5 / 2)"
    by code_simp
  show ?thesis
    using general_index_is_mean_of_present_codes [OF h1 h2 h3 h4 h5] v by simp
qed

text \<open>
  C1 as worded takes the mean over the three categories only. Here the source brings a
  column \<open>indice_calidad_campo\<close> of its own with the value 4; the row is rated Excelente
  (code 1) for DQO, and the general index is the mean of 4 and 1, not 1.
\<close>

theorem source_index_column_enters_general_index:
  "transform_quality_data
     \<lparr>columns = [''calidad_dqo'', ''indice_calidad_campo''], rows = [[Str ''Excelente'', Num 4]]\<rparr> =
   Inr \<lparr>columns = [''calidad_dqo'', ''indice_calidad_campo'', ''indice_calidad_dqo'',
                   ''indice_calidad_general''],
        rows = [[Str ''Excelente'', Num 4, Num 1, Num (5 / 2)]]\<rparr> \<and>
   spec_general [''calidad_dqo'', ''indice_calidad_campo'', ''indice_calidad_dqo'',
                 ''indice_calidad_general'']
     [Str ''Excelente'', Num 4, Num 1, Num (5 / 2)] = Num 1"
  by code_simp

text \<open>
  C8. With \<open>mid\<close> the table as the general index finds it (after the three mappings),
  the general index of row \<open>i\<close> of the output is the rounded mean over the cells of that
  row under every label of \<open>mid\<close> that starts with \<open>indice_calidad_\<close>. A source label \<open>c\<close>
  that normalises to such a name is among these labels, and unless a mapping has
  overwritten it, its cells are the zero-filled cells of the source.
\<close>

theorem general_index_covers_every_index_column:
  assumes "rectangular df"
      and "ordinal_stage df = Inr mid"
      and "transform_quality_data df = Inr out"
      and "i < length (rows out)"
      and "filter (\<lambda>col. startswith col ''indice_calidad_'') (columns mid) \<noteq> []"
    shows "cell_at (columns out) (rows out ! i) ''indice_calidad_general'' =
             round_cell (mean_cell (select_cells (columns mid)
               (filter (\<lambda>col. startswith col ''indice_calidad_'') (columns mid)) (rows mid ! i))) \<and>
           (c \<in> set (columns df) \<and> startswith (normalize_name c) ''indice_calidad_'' \<longrightarrow>
              normalize_name c \<in> set (filter (\<lambda>col. startswith col ''indice_calidad_'') (columns mid)) \<and>
              (normalize_name c \<notin> {''indice_calidad_dqo'', ''indice_calidad_dbo'', ''indice_calidad_sst''} \<longrightarrow>
                 getitems (columns mid) (rows mid ! i) (normalize_name c) =
                 getitems (columns (cleaned_source df)) (rows (cleaned_source df) ! i) (normalize_name c)))"
proof -
  let ?cols = "columns (cleaned_source df)" and ?rws = "rows (cleaned_source df)"
  note out = transform_Inr_D [OF assms(3)] and mid = ordinal_stage_Inr_D [OF assms(2)]
  have i: "i < length ?rws"
    using assms(4) length_rows_out [OF assms(3)] by simp
  have len: "length (?rws ! i) = length ?cols"
    using assms(1) i by (rule nth_cleaned_source_length)
  have labels: "indice_labels (ordinal_cols ?cols) \<noteq> []"
    using assms(5) by (simp add: mid(1) indice_labels_def)
  have "cell_at (columns out) (rows out ! i) ''indice_calidad_general'' =
        round_cell (mean_cell (select_cells (ordinal_cols ?cols) (indice_labels (ordinal_cols ?cols))
          (ordinal_row ?cols (?rws ! i))))"
    using i by (simp add: out(1,2) cell_at_derived_row_general [OF len labels])
  then have first: "cell_at (columns out) (rows out ! i) ''indice_calidad_general'' =
             round_cell (mean_cell (select_cells (columns mid)
               (filter (\<lambda>col. startswith col ''indice_calidad_'') (columns mid)) (rows mid ! i)))"
    using i by (simp add: mid indice_labels_def)
  have second: "normalize_name c \<in> set (filter (\<lambda>col. startswith col ''indice_calidad_'') (columns mid))"
    if "c \<in> set (columns df)" "startswith (normalize_name c) ''indice_calidad_''"
    using that by (simp add: mid(1) columns_cleaned_source set_ordinal_cols_source)
  have third: "getitems (columns mid) (rows mid ! i) (normalize_name c) =
                 getitems ?cols (?rws ! i) (normalize_name c)"
    if "normalize_name c \<notin> {''indice_calidad_dqo'', ''indice_calidad_dbo'', ''indice_calidad_sst''}"
    using that i by (simp add: mid getitems_ordinal_row_other [OF len])
  show ?thesis
    using first second third by blast
qed

theorem general_index_covers_every_index_column_witness:
  "cell_at [''calidad_dqo'', ''indice_calidad_campo'', ''indice_calidad_dqo'', ''indice_calidad_general'']
     [Str ''Excelente'', Num 4, Num 1, Num (5 / 2)] ''indice_calidad_general'' =
   round_cell (mean_cell (select_cells [''calidad_dqo'', ''indice_calidad_campo'', ''indice_calidad_dqo'']
     [''indice_calidad_campo'', ''indice_calidad_dqo''] [Str ''Excelente'', Num 4, Num 1])) \<and>
   round_cell (mean_cell (select_cells [''calidad_dqo'', ''indice_calidad_campo'', ''indice_calidad_dqo'']
     [''indice_calidad_campo'', ''indice_calidad_dqo''] [Str ''Excelente'', Num 4, Num 1])) = Num (5 / 2) \<and>
   getitems [''calidad_dqo'', ''indice_calidad_campo'', ''indice_calidad_dqo'']
     [Str ''Excelente'', Num 4, Num 1] ''indice_calidad_campo'' = [Num 4]"
proof -
  let ?df = "\<lparr>columns = [''calidad_dqo'', ''Indice_Calidad_Campo''],
              rows = [[Str ''Excelente'', Num 4]]\<rparr>"
  let ?mid = "\<lparr>columns = [''calidad_dqo'', ''indice_calidad_campo'', ''indice_calidad_dqo''],
               rows = [[Str ''Excelente'', Num 4, Num 1]]\<rparr>"
  let ?out = "\<lparr>columns = [''calidad_dqo'', ''indice_calidad_campo'', ''indice_calidad_dqo'',
                           ''indice_calidad_general''],
               rows = [[Str ''Excelente'', Num 4, Num 1, Num (5 / 2)]]\<rparr>"
  have h1: "rectangular ?df"
    by (simp add: rectangular_def)
  have h2: "ordinal_stage ?df = Inr ?mid"
    by code_simp
  have h3: "transform_quality_data ?df = Inr ?out"
    by code_simp
  have h4: "0 < length (rows ?out)"
    by simp
  have f: "filter (\<lambda>col. startswith col ''indice_calidad_'') (columns ?mid) =
           [''indice_calidad_campo'', ''indice_calidad_dqo'']"
    by code_simp
  have h5: "filter (\<lambda>col. startswith col ''indice_calidad_'') (columns ?mid) \<noteq> []"
    unfolding f by simp
  have v: "round_cell (mean_cell (select_cells [''calidad_dqo'', ''indice_calidad_campo'', ''indice_calidad_dqo'']
     [''indice_calidad_campo'', ''indice_calidad_dqo''] [Str ''Excelente'', Num 4, Num 1])) = Num (5 / 2)"
    by code_simp
  have g: "getitems [''calidad_dqo'', ''indice_calidad_campo'', ''indice_calidad_dqo'']
     [Str ''Excelente'', Num 4, Num 1] ''indice_calidad_campo'' = [Num 4]"
    by code_simp
  have "cell_at (columns ?out) (rows ?out ! 0) ''indice_calidad_general'' =
          round_cell (mean_cell (select_cells (columns ?mid)
            (filter (\<lambda>col. startswith col ''indice_calidad_'') (columns ?mid)) (rows ?mid ! 0)))"
    using general_index_covers_every_index_column [OF h1 h2 h3 h4 h5] by (rule conjunct1)
  then show ?thesis
    unfolding f using v g by simp
qed

section \<open>Unknown category values\<close>

text \<open>
  C3. Let a row of the output hold, in the category column \<open>src\<close>, something that is none
  of the four labels (a zero-filled missing value, an empty text, any number). Then its
  ordinal in \<open>dst\<close> is missing, and the general index of the row is the rounded mean over
  the index cells of the row without those under \<open>dst\<close>: the missing ordinal counts for
  nothing. The mapping itself succeeds on every table in which \<open>src\<close> labels one column,
  whatever the cells hold.
\<close>

theorem unknown_category_gives_missing_ordinal:
  assumes "rectangular df"
      and "ordinal_stage df = Inr mid"
      and "transform_quality_data df = Inr out"
      and "i < length (rows out)"
      and "(src, dst) \<in> set category_pairs"
      and "src \<in> set (columns out)"
      and "cell_at (columns out) (rows out ! i) src \<notin>
             {Str ''Excelente'', Str ''Buena calidad'', Str ''Aceptable'', Str ''Contaminada''}"
    shows "cell_at (columns out) (rows out ! i) dst = NaN \<and>
           cell_at (columns out) (rows out ! i) ''indice_calidad_general'' =
             round_cell (mean_cell (select_cells (columns mid)
               (filter (\<lambda>c. c \<noteq> dst) (filter (\<lambda>col. startswith col ''indice_calidad_'') (columns mid)))
               (rows mid ! i))) \<and>
           (count_list (columns d) src = 1 \<longrightarrow> (\<exists>d'. map_column src dst quality_map d = Inr d'))"
proof -
  let ?cols = "columns (cleaned_source df)" and ?rws = "rows (cleaned_source df)"
  note out = transform_Inr_D [OF assms(3)] and mid = ordinal_stage_Inr_D [OF assms(2)]
  have i: "i < length ?rws"
    using assms(4) length_rows_out [OF assms(3)] by simp
  have len: "length (?rws ! i) = length ?cols"
    using assms(1) i by (rule nth_cleaned_source_length)
  have names: "src \<noteq> ''indice_calidad_dqo''" "src \<noteq> ''indice_calidad_dbo''" "src \<noteq> ''indice_calidad_sst''"
      "src \<noteq> ''indice_calidad_general''" "src \<noteq> ''semaforo_numerico''"
      "dst \<noteq> ''indice_calidad_general''" "dst \<noteq> ''semaforo_numerico''"
      "startswith dst ''indice_calidad_''"
    using assms(5) by (auto simp: category_pairs_def)
  have src: "src \<in> set ?cols"
    using assms(6) names by (simp add: out(1) set_derived_cols_category)
  have same: "cell_at (columns out) (rows out ! i) src = cell_at ?cols (?rws ! i) src"
    using i names by (simp add: out(1,2) cell_at_derived_row_source [OF len])
  then have unknown: "series_map quality_map (cell_at ?cols (?rws ! i) src) = NaN"
    using assms(7) by (simp add: series_map_unknown)
  have "cell_at (columns out) (rows out ! i) dst = cell_at (ordinal_cols ?cols) (ordinal_row ?cols (?rws ! i)) dst"
    using i names by (simp add: out(1,2) cell_at_derived_row_other [OF len])
  then have first: "cell_at (columns out) (rows out ! i) dst = NaN"
    using unknown by (simp add: ordinal_of_source(1) [OF len assms(5) src])
  have all: "set (getitems (columns mid) (rows mid ! i) dst) \<subseteq> {NaN}"
    using ordinal_of_source(2) [OF len assms(5) src] unknown i by (simp add: mid)
  have "dst \<in> set (columns mid)"
    using assms(5) src by (auto simp: mid(1) category_pairs_def ordinal_cols_def set_map_cols)
  then have labels: "filter (\<lambda>col. startswith col ''indice_calidad_'') (columns mid) \<noteq> []"
    using names(8) by (auto simp: filter_empty_conv)
  have "cell_at (columns out) (rows out ! i) ''indice_calidad_general'' =
          round_cell (mean_cell (select_cells (columns mid)
             (filter (\<lambda>col. startswith col ''indice_calidad_'') (columns mid)) (rows mid ! i)))"
  proof -
    have l: "indice_labels (ordinal_cols ?cols) \<noteq> []"
      using labels by (simp add: mid(1) indice_labels_def)
    show ?thesis
      using i by (simp add: out(1,2) mid cell_at_derived_row_general [OF len l] indice_labels_def)
  qed
  also have "mean_cell (select_cells (columns mid)
             (filter (\<lambda>col. startswith col ''indice_calidad_'') (columns mid)) (rows mid ! i)) =
        mean_cell (select_cells (columns mid)
             (filter (\<lambda>c. c \<noteq> dst) (filter (\<lambda>col. startswith col ''indice_calidad_'') (columns mid)))
             (rows mid ! i))"
    by (rule mean_cell_cong_numbers) (rule numbers_select_without [OF all, symmetric])
  finally have second: "cell_at (columns out) (rows out ! i) ''indice_calidad_general'' =
             round_cell (mean_cell (select_cells (columns mid)
               (filter (\<lambda>c. c \<noteq> dst) (filter (\<lambda>col. startswith col ''indice_calidad_'') (columns mid)))
               (rows mid ! i)))" .
  show ?thesis
    using first second map_column_unique_succeeds by blast
qed

theorem unknown_category_gives_missing_ordinal_witness:
  "cell_at [''calidad_dqo'', ''calidad_dbo'', ''indice_calidad_dqo'', ''indice_calidad_dbo'',
            ''indice_calidad_general'']
     [Num 0, Str ''Buena calidad'', NaN, Num 2, Num 2] ''indice_calidad_dqo'' = NaN \<and>
   cell_at [''calidad_dqo'', ''calidad_dbo'', ''indice_calidad_dqo'', ''indice_calidad_dbo'',
            ''indice_calidad_general'']
     [Num 0, Str ''Buena calidad'', NaN, Num 2, Num 2] ''indice_calidad_general'' =
   round_cell (mean_cell (select_cells
     [''calidad_dqo'', ''calidad_dbo'', ''indice_calidad_dqo'', ''indice_calidad_dbo'']
     [''indice_calidad_dbo''] [Num 0, Str ''Buena calidad'', NaN, Num 2])) \<and>
   round_cell (mean_cell (select_cells
     [''calidad_dqo'', ''calidad_dbo'', ''indice_calidad_dqo'', ''indice_calidad_dbo'']
     [''indice_calidad_dbo''] [Num 0, Str ''Buena calidad'', NaN, Num 2])) = Num 2"
proof -
  let ?df = "\<lparr>columns = [''CALIDAD_DQO'', ''CALIDAD_DBO''],
              rows = [[NaN, Str ''Buena calidad'']]\<rparr>"
  let ?mid = "\<lparr>columns = [''calidad_dqo'', ''calidad_dbo'', ''indice_calidad_dqo'', ''indice_calidad_dbo''],
               rows = [[Num 0, Str ''Buena calidad'', NaN, Num 2]]\<rparr>"
  let ?out = "\<lparr>columns = [''calidad_dqo'', ''calidad_dbo'', ''indice_calidad_dqo'', ''indice_calidad_dbo'',
                           ''indice_calidad_general''],
               rows = [[Num 0, Str ''Buena calidad'', NaN, Num 2, Num 2]]\<rparr>"
  have h1: "rectangular ?df"
    by (simp add: rectangular_def)
  have h2: "ordinal_stage ?df = Inr ?mid"
    by code_simp
  have h3: "transform_quality_data ?df = Inr ?out"
    by code_simp
  have h4: "0 < length (rows ?out)"
    by simp
  have h5: "(''calidad_dqo'', ''indice_calidad_dqo'') \<in> set category_pairs"
    by (simp add: category_pairs_def)
  have h6: "''calidad_dqo'' \<in> set (columns ?out)"
    by simp
  have h7: "cell_at (columns ?out) (rows ?out ! 0) ''calidad_dqo'' \<notin>
             {Str ''Excelente'', Str ''Buena calidad'', Str ''Aceptable'', Str ''Contaminada''}"
    by (simp add: cell_at_def)
  have f: "filter (\<lambda>c. c \<noteq> ''indice_calidad_dqo'')
             (filter (\<lambda>col. startswith col ''indice_calidad_'') (columns ?mid)) = [''indice_calidad_dbo'']"
    by code_simp
  have v: "round_cell (mean_cell (select_cells
     [''calidad_dqo'', ''calidad_dbo'', ''indice_calidad_dqo'', ''indice_calidad_dbo'']
     [''indice_calidad_dbo''] [Num 0, Str ''Buena calidad'', NaN, Num 2])) = Num 2"
    by code_simp
  show ?thesis
    using unknown_category_gives_missing_ordinal [OF h1 h2 h3 h4 h5 h6 h7] v
    unfolding f by simp
qed

section \<open>The cleaning steps in their order\<close>

text \<open>
  C7. The function equals the row-wise derivation applied to the rows that are first
  deduplicated as they were read, then zero-filled, under the labels normalised before
  any lookup; it raises or not on that table alone. For a run that returns: the output
  has one row per distinct source row; a source label that normalises to a category name
  gets its index column; and no cell under a label other than the derived ones is
  missing, the zero-fill having covered every column before the mappings ran.
\<close>

theorem cleaning_steps_in_order:
  "transform_quality_data df =
     (if transform_raises (map normalize_name (columns df))
           (map (map fill_cell) (keep_first [] (rows df)))
      then Inl TypeError
      else Inr \<lparr>columns = derived_cols (map normalize_name (columns df)),
                rows = map (derived_row (map normalize_name (columns df)))
                         (map (map fill_cell) (keep_first [] (rows df)))\<rparr>) \<and>
   (transform_quality_data df = Inr out \<longrightarrow>
      length (rows out) = card (set (rows df)) \<and>
      (c \<in> set (columns df) \<and> (normalize_name c, dst) \<in> set category_pairs \<longrightarrow>
         dst \<in> set (columns out)) \<and>
      (rectangular df \<and> r \<in> set (rows out) \<and> n \<notin> set derived_names \<longrightarrow>
         NaN \<notin> set (getitems (columns out) r n)))"
proof -
  let ?cols = "columns (cleaned_source df)" and ?rws = "rows (cleaned_source df)"
  have eq: "transform_quality_data df =
     (if transform_raises (map normalize_name (columns df))
           (map (map fill_cell) (keep_first [] (rows df)))
      then Inl TypeError
      else Inr \<lparr>columns = derived_cols (map normalize_name (columns df)),
                rows = map (derived_row (map normalize_name (columns df)))
                         (map (map fill_cell) (keep_first [] (rows df)))\<rparr>)"
    using transform_quality_data_eq [of df]
    by (simp only: columns_cleaned_source rows_cleaned_source)
  have rest: "length (rows out) = card (set (rows df)) \<and>
      (c \<in> set (columns df) \<and> (normalize_name c, dst) \<in> set category_pairs \<longrightarrow>
         dst \<in> set (columns out)) \<and>
      (rectangular df \<and> r \<in> set (rows out) \<and> n \<notin> set derived_names \<longrightarrow>
         NaN \<notin> set (getitems (columns out) r n))"
    if ok: "transform_quality_data df = Inr out"
  proof -
    note out = transform_Inr_D [OF ok]
    have a: "length (rows out) = card (set (rows df))"
      by (simp add: out(2) rows_cleaned_source length_keep_first)
    have b: "dst \<in> set (columns out)"
      if "c \<in> set (columns df)" "(normalize_name c, dst) \<in> set category_pairs"
      using that by (simp add: out(1) category_dst_in_derived columns_cleaned_source)
    have c: "NaN \<notin> set (getitems (columns out) r n)"
      if rect: "rectangular df" and r: "r \<in> set (rows out)" and n: "n \<notin> set derived_names"
    proof -
      obtain r0 where r0: "r0 \<in> set ?rws" and rr: "r = derived_row ?cols r0"
        using r out(2) by auto
      have len: "length r0 = length ?cols"
        using rect r0 by (rule rectangular_cleaned_source)
      have "getitems (columns out) r n = getitems ?cols r0 n"
        using n by (simp add: out(1) rr derived_names_def getitems_derived_row_other [OF len]
              getitems_ordinal_row_other [OF len])
      then show ?thesis
        using cleaned_source_not_missing [OF r0] set_getitems [of ?cols r0 n] by auto
    qed
    show ?thesis
      using a b c by blast
  qed
  show ?thesis
    using eq rest by blast
qed

theorem cleaning_steps_in_order_witness:
  "transform_quality_data
     \<lparr>columns = ['' Calidad DQO '', ''ESTADO''],
      rows = [[Str ''Aceptable'', NaN], [Str ''Aceptable'', NaN]]\<rparr> =
   Inr \<lparr>columns = [''calidad_dqo'', ''estado'', ''indice_calidad_dqo'', ''indice_calidad_general''],
        rows = [[Str ''Aceptable'', Num 0, Num 3, Num 3]]\<rparr> \<and>
   length [[Str ''Aceptable'', Num 0, Num 3, Num 3]] =
     card (set [[Str ''Aceptable'', NaN], [Str ''Aceptable'', NaN]]) \<and>
   ''indice_calidad_dqo'' \<in> set [''calidad_dqo'', ''estado'', ''indice_calidad_dqo'', ''indice_calidad_general''] \<and>
   NaN \<notin> set (getitems [''calidad_dqo'', ''estado'', ''indice_calidad_dqo'', ''indice_calidad_general'']
                  [Str ''Aceptable'', Num 0, Num 3, Num 3] ''estado'')"
proof -
  let ?df = "\<lparr>columns = ['' Calidad DQO '', ''ESTADO''],
              rows = [[Str ''Aceptable'', NaN], [Str ''Aceptable'', NaN]]\<rparr>"
  let ?out = "\<lparr>columns = [''calidad_dqo'', ''estado'', ''indice_calidad_dqo'', ''indice_calidad_general''],
               rows = [[Str ''Aceptable'', Num 0, Num 3, Num 3]]\<rparr>"
  have h1: "transform_quality_data ?df = Inr ?out"
    by code_simp
  have h2: "'' Calidad DQO '' \<in> set (columns ?df) \<and>
            (normalize_name '' Calidad DQO '', ''indice_calidad_dqo'') \<in> set category_pairs"
    by code_simp
  have h3: "rectangular ?df \<and> [Str ''Aceptable'', Num 0, Num 3, Num 3] \<in> set (rows ?out) \<and>
            ''estado'' \<notin> set derived_names"
    by (simp add: rectangular_def derived_names_def)
  show ?thesis
    using cleaning_steps_in_order [of ?df ?out "'' Calidad DQO ''" "''indice_calidad_dqo''"
            "[Str ''Aceptable'', Num 0, Num 3, Num 3]" "''estado''"] h1 h2 h3
    by simp
qed

section \<open>The two ways to read the raw file\<close>

text \<open>
  C5, at a file on which the two ways differ. \<open>mixed_file\<close> is larger than 5 MiB, so the
  stage reads it in batches of 10,000 records. The first batch has only numerals in the
  column \<open>valor\<close> and is typed as numbers, \<open>1.50\<close> and \<open>1.5\<close> both becoming 1.5; the last
  record has the text \<open>x\<close> there. Read whole, the same file keeps \<open>valor\<close> as text in
  every record. The table the stage holds in memory is not the table a whole read gives.
\<close>

theorem chunked_read_types_each_batch_alone:
  "5 * 1024 * 1024 < file_size mixed_file \<and>
   load_raw mixed_file =
     Inr \<lparr>columns = [''valor'', ''nota''],
          rows = [Num (3 / 2), Str nota] # [Num (3 / 2), Str nota] #
                 replicate 9998 [Num (5 / 2), Str nota] @ [[Str ''x'', Str nota]]\<rparr> \<and>
   read_csv mixed_file =
     Inr \<lparr>columns = [''valor'', ''nota''],
          rows = [Str ''1.50'', Str nota] # [Str ''1.5'', Str nota] #
                 replicate 9998 [Str ''2.5'', Str nota] @ [[Str ''x'', Str nota]]\<rparr> \<and>
   load_raw mixed_file \<noteq> read_csv mixed_file"
proof -
  let ?b1 = "[Str ''1.50'', Str nota] # [Str ''1.5'', Str nota] # replicate 9998 [Str ''2.5'', Str nota]"
  let ?b2 = "[[Str ''x'', Str nota]]"
  have rws: "rows (records mixed_file) = ?b1 @ ?b2" and cols: "columns (records mixed_file) = [''valor'', ''nota'']"
    and size: "file_size mixed_file = 6050615"
    by (simp_all add: mixed_file_def)
  have ch: "chunks_of 10000 (?b1 @ ?b2) = [?b1, ?b2]"
    by (rule chunks_of_two) simp_all
  have chunked: "load_raw mixed_file =
     Inr \<lparr>columns = [''valor'', ''nota''],
          rows = [Num (3 / 2), Str nota] # [Num (3 / 2), Str nota] #
                 replicate 9998 [Num (5 / 2), Str nota] @ [[Str ''x'', Str nota]]\<rparr>"
    unfolding load_raw_def read_csv_chunks_def rws cols size ch
    by (simp add: concat_frames_def infer_first_batch infer_last_batch)
  have whole: "read_csv mixed_file =
     Inr \<lparr>columns = [''valor'', ''nota''],
          rows = [Str ''1.50'', Str nota] # [Str ''1.5'', Str nota] #
                 replicate 9998 [Str ''2.5'', Str nota] @ [[Str ''x'', Str nota]]\<rparr>"
    unfolding read_csv_def rws cols
    using infer_whole by simp
  show ?thesis
    unfolding chunked whole by (simp add: size)
qed

section \<open>Load: the views are dropped first\<close>

text \<open>
  C4. In every run of the load, when the table replacement is executed, both view drops
  were executed before it, and the database the replacement finds is the one the run
  started from without the two views: same table, same other views. If either view drop
  fails, the replacement is not executed and the database is left as it was found (the
  transaction of the drops is rolled back).
\<close>

theorem views_dropped_before_table_replaced:
  "((ReplaceTable, d') \<in> set (trace (load e now parquet d)) \<longrightarrow>
      DropView resumen_por_estado \<in>
        set (takeWhile (\<lambda>s. s \<noteq> ReplaceTable) (map fst (trace (load e now parquet d)))) \<and>
      DropView calidad_por_periodo \<in>
        set (takeWhile (\<lambda>s. s \<noteq> ReplaceTable) (map fst (trace (load e now parquet d)))) \<and>
      tbl d' = tbl d \<and>
      views d' = filter (\<lambda>(n, q). n \<noteq> resumen_por_estado \<and> n \<noteq> calidad_por_periodo) (views d)) \<and>
   (fails e (DropView resumen_por_estado) \<or> fails e (DropView calidad_por_periodo) \<longrightarrow>
      ReplaceTable \<notin> fst ` set (trace (load e now parquet d)) \<and>
      db (load e now parquet d) = d)"
proof (cases parquet)
  case None
  then show ?thesis by (simp add: load_def)
next
  case (Some df)
  let ?s2 = "drop_step e d"
  let ?dfl = "setitem_scalar ''fecha_carga'' now df"
  have ld: "load e now parquet d = after_drop e df ?dfl ?s2"
    using Some by (simp add: load_Some)
  show ?thesis
  proof (cases "raised ?s2 = None")
    case True
    then have nofail: "\<not> fails e (DropView resumen_por_estado)" "\<not> fails e (DropView calidad_por_periodo)"
      and tr: "map fst (trace ?s2) = [SelectVersion, DropView resumen_por_estado, DropView calidad_por_periodo]"
      and d2: "db ?s2 = d\<lparr>views := remaining_views d\<rparr>"
      by (auto simp: drop_step_cases remaining_views_def split: if_splits)
    obtain ys where ys: "trace (after_drop e df ?dfl ?s2) = trace ?s2 @ ys"
        "\<forall>d'. (ReplaceTable, d') \<in> set ys \<longrightarrow> d' = db ?s2"
      using trace_after_drop_found by blast
    have found: "d' = db ?s2" if "(ReplaceTable, d') \<in> set (trace (load e now parquet d))"
    proof -
      have "set (map fst (trace ?s2)) =
              set [SelectVersion, DropView resumen_por_estado, DropView calidad_por_periodo]"
        using tr by simp
      then have "ReplaceTable \<notin> fst ` set (trace ?s2)"
        by simp
      then have "(ReplaceTable, d') \<notin> set (trace ?s2)"
        by force
      then show ?thesis
        using that ys by (auto simp: ld)
    qed
    have order: "takeWhile (\<lambda>s. s \<noteq> ReplaceTable) (map fst (trace (load e now parquet d))) =
        SelectVersion # DropView resumen_por_estado # DropView calidad_por_periodo #
        takeWhile (\<lambda>s. s \<noteq> ReplaceTable) (map fst ys)"
      by (simp add: ld ys(1) tr)
    show ?thesis
      using nofail found by (auto simp: order d2 remaining_views_filter)
  next
    case False
    then have "after_drop e df ?dfl ?s2 = ?s2"
      by (rule after_drop_skip)
    moreover have no: "ReplaceTable \<notin> fst ` set (trace ?s2)" and "db ?s2 = d"
      using False by (auto simp: drop_step_cases split: if_splits)
    moreover have "(ReplaceTable, d') \<notin> set (trace ?s2)"
      using no by force
    ultimately show ?thesis
      by (simp add: ld)
  qed
qed

theorem views_dropped_before_table_replaced_witness:
  "(ReplaceTable,
    \<lparr>tbl = Some \<lparr>columns = [''estado''], rows = [[Str ''Jalisco''], [Str ''Colima'']]\<rparr>, views = []\<rparr>) \<in>
     set (trace (load \<lparr>fails = (\<lambda>s. False), leftover = None\<rparr> (Str ''2025-11-24'')
        (Some \<lparr>columns = [''estado'', ''periodo'', ''semaforo'', ''indice_calidad_general''],
               rows = [[Str ''Sonora'', Str ''2020'', Str ''VERDE'', Num 1]]\<rparr>)
        \<lparr>tbl = Some \<lparr>columns = [''estado''], rows = [[Str ''Jalisco''], [Str ''Colima'']]\<rparr>,
         views = [(resumen_por_estado, resumen_por_estado_sql),
                  (calidad_por_periodo, calidad_por_periodo_sql)]\<rparr>)) \<and>
   DropView resumen_por_estado \<in> set (takeWhile (\<lambda>s. s \<noteq> ReplaceTable)
     (map fst (trace (load \<lparr>fails = (\<lambda>s. False), leftover = None\<rparr> (Str ''2025-11-24'')
        (Some \<lparr>columns = [''estado'', ''periodo'', ''semaforo'', ''indice_calidad_general''],
               rows = [[Str ''Sonora'', Str ''2020'', Str ''VERDE'', Num 1]]\<rparr>)
        \<lparr>tbl = Some \<lparr>columns = [''estado''], rows = [[Str ''Jalisco''], [Str ''Colima'']]\<rparr>,
         views = [(resumen_por_estado, resumen_por_estado_sql),
                  (calidad_por_periodo, calidad_por_periodo_sql)]\<rparr>)))) \<and>
   DropView calidad_por_periodo \<in> set (takeWhile (\<lambda>s. s \<noteq> ReplaceTable)
     (map fst (trace (load \<lparr>fails = (\<lambda>s. False), leftover = None\<rparr> (Str ''2025-11-24'')
        (Some \<lparr>columns = [''estado'', ''periodo'', ''semaforo'', ''indice_calidad_general''],
               rows = [[Str ''Sonora'', Str ''2020'', Str ''VERDE'', Num 1]]\<rparr>)
        \<lparr>tbl = Some \<lparr>columns = [''estado''], rows = [[Str ''Jalisco''], [Str ''Colima'']]\<rparr>,
         views = [(resumen_por_estado, resumen_por_estado_sql),
                  (calidad_por_periodo, calidad_por_periodo_sql)]\<rparr>)))) \<and>
   [] = filter (\<lambda>(n, q). n \<noteq> resumen_por_estado \<and> n \<noteq> calidad_por_periodo)
          [(resumen_por_estado, resumen_por_estado_sql), (calidad_por_periodo, calidad_por_periodo_sql)] \<and>
   ReplaceTable \<notin> fst ` set (trace (load \<lparr>fails = (\<lambda>s. s = DropView calidad_por_periodo), leftover = None\<rparr>
        (Str ''2025-11-24'')
        (Some \<lparr>columns = [''estado'', ''periodo'', ''semaforo'', ''indice_calidad_general''],
               rows = [[Str ''Sonora'', Str ''2020'', Str ''VERDE'', Num 1]]\<rparr>)
        \<lparr>tbl = Some \<lparr>columns = [''estado''], rows = [[Str ''Jalisco''], [Str ''Colima'']]\<rparr>,
         views = [(resumen_por_estado, resumen_por_estado_sql),
                  (calidad_por_periodo, calidad_por_periodo_sql)]\<rparr>)) \<and>
   db (load \<lparr>fails = (\<lambda>s. s = DropView calidad_por_periodo), leftover = None\<rparr>
        (Str ''2025-11-24'')
        (Some \<lparr>columns = [''estado'', ''periodo'', ''semaforo'', ''indice_calidad_general''],
               rows = [[Str ''Sonora'', Str ''2020'', Str ''VERDE'', Num 1]]\<rparr>)
        \<lparr>tbl = Some \<lparr>columns = [''estado''], rows = [[Str ''Jalisco''], [Str ''Colima'']]\<rparr>,
         views = [(resumen_por_estado, resumen_por_estado_sql),
                  (calidad_por_periodo, calidad_por_periodo_sql)]\<rparr>) =
     \<lparr>tbl = Some \<lparr>columns = [''estado''], rows = [[Str ''Jalisco''], [Str ''Colima'']]\<rparr>,
      views = [(resumen_por_estado, resumen_por_estado_sql),
               (calidad_por_periodo, calidad_por_periodo_sql)]\<rparr>"
proof -
  let ?bad = "\<lparr>fails = (\<lambda>s. s = DropView calidad_por_periodo), leftover = None\<rparr>"
  let ?good = "\<lparr>fails = (\<lambda>s. False), leftover = None\<rparr>"
  let ?df = "\<lparr>columns = [''estado'', ''periodo'', ''semaforo'', ''indice_calidad_general''],
              rows = [[Str ''Sonora'', Str ''2020'', Str ''VERDE'', Num 1]]\<rparr>"
  let ?old = "\<lparr>columns = [''estado''], rows = [[Str ''Jalisco''], [Str ''Colima'']]\<rparr>"
  let ?d = "\<lparr>tbl = Some ?old,
             views = [(resumen_por_estado, resumen_por_estado_sql),
                      (calidad_por_periodo, calidad_por_periodo_sql)]\<rparr>"
  let ?found = "\<lparr>tbl = Some ?old, views = []\<rparr>"
  have f: "fails ?bad (DropView resumen_por_estado) \<or> fails ?bad (DropView calidad_por_periodo)"
    by simp
  have r: "(ReplaceTable, ?found) \<in> set (trace (load ?good (Str ''2025-11-24'') (Some ?df) ?d))"
    by code_simp
  note run = views_dropped_before_table_replaced [of ?found ?good "Str ''2025-11-24''" "Some ?df" ?d]
  note stop = views_dropped_before_table_replaced [of ?found ?bad "Str ''2025-11-24''" "Some ?df" ?d]
  have a: "DropView resumen_por_estado \<in> set (takeWhile (\<lambda>s. s \<noteq> ReplaceTable)
             (map fst (trace (load ?good (Str ''2025-11-24'') (Some ?df) ?d))))"
    and b: "DropView calidad_por_periodo \<in> set (takeWhile (\<lambda>s. s \<noteq> ReplaceTable)
             (map fst (trace (load ?good (Str ''2025-11-24'') (Some ?df) ?d))))"
    and c: "views ?found = filter (\<lambda>(n, q). n \<noteq> resumen_por_estado \<and> n \<noteq> calidad_por_periodo) (views ?d)"
    using run r by blast+
  have d: "ReplaceTable \<notin> fst ` set (trace (load ?bad (Str ''2025-11-24'') (Some ?df) ?d))"
    and e: "db (load ?bad (Str ''2025-11-24'') (Some ?df) ?d) = ?d"
    using stop f by blast+
  have c': "[] = filter (\<lambda>(n, q). n \<noteq> resumen_por_estado \<and> n \<noteq> calidad_por_periodo)
          [(resumen_por_estado, resumen_por_estado_sql), (calidad_por_periodo, calidad_por_periodo_sql)]"
    using c by simp
  show ?thesis
    using r a b c' d e by (intro conjI)
qed

section \<open>Load: running it twice\<close>

text \<open>
  C6. Take two runs of the load in succession on the same cleaned table, neither
  disturbed from outside, starting from a database in which views exist only over an
  existing table. After the second run the destination table has as many rows as after
  the first and the views are the same. When the first run succeeds, so does the second:
  the table then holds exactly the newly loaded rows, and the views are the two fixed ones.
\<close>

theorem load_twice_same_as_once:
  assumes "\<forall>s. \<not> fails e1 s" and "\<forall>s. \<not> fails e2 s" and "consistent d"
  shows "row_count (db (load e2 now2 (Some df) (db (load e1 now1 (Some df) d)))) =
           row_count (db (load e1 now1 (Some df) d)) \<and>
         views (db (load e2 now2 (Some df) (db (load e1 now1 (Some df) d)))) =
           views (db (load e1 now1 (Some df) d)) \<and>
         (raised (load e1 now1 (Some df) d) = None \<longrightarrow>
            raised (load e2 now2 (Some df) (db (load e1 now1 (Some df) d))) = None \<and>
            tbl (db (load e2 now2 (Some df) (db (load e1 now1 (Some df) d)))) =
              Some (setitem_scalar ''fecha_carga'' now2 df) \<and>
            views (db (load e2 now2 (Some df) (db (load e1 now1 (Some df) d)))) =
              [(resumen_por_estado, resumen_por_estado_sql),
               (calidad_por_periodo, calidad_por_periodo_sql)])"
proof -
  let ?d1 = "db (load e1 now1 (Some df) d)"
  let ?t1 = "setitem_scalar ''fecha_carga'' now1 df" and ?t2 = "setitem_scalar ''fecha_carga'' now2 df"
  note first = load_no_fail [OF assms(1), of now1 df d]
  note second = load_no_fail [OF assms(2), of now2 df ?d1]
  have cr: "views_creatable ?t2 = views_creatable ?t1"
    by (rule views_creatable_now)
  show ?thesis
  proof (cases "tbl d \<noteq> None \<and> remaining_views d \<noteq> []")
    case True
    then have d1: "?d1 = d\<lparr>views := remaining_views d\<rparr>" and r1: "raised (load e1 now1 (Some df) d) \<noteq> None"
      using first by auto
    have "tbl ?d1 \<noteq> None \<and> remaining_views ?d1 \<noteq> []"
      using True by (simp add: d1 remaining_views_idem)
    then have "db (load e2 now2 (Some df) ?d1) = ?d1\<lparr>views := remaining_views ?d1\<rparr>"
      using second(1) by auto
    then have "db (load e2 now2 (Some df) ?d1) = ?d1"
      by (simp add: d1 remaining_views_idem)
    then show ?thesis
      using r1 by auto
  next
    case False
    then have rv: "remaining_views d = []"
      using assms(3) by (auto simp: consistent_def remaining_views_Nil)
    show ?thesis
    proof (cases "views_creatable ?t1")
      case True
      have d1: "?d1 = \<lparr>tbl = Some ?t1, views = [(resumen_por_estado, resumen_por_estado_sql),
                                                   (calidad_por_periodo, calidad_por_periodo_sql)]\<rparr>"
        using first(1) False True by (auto simp: rv)
      have rv1: "remaining_views ?d1 = []"
        unfolding d1 by (rule remaining_views_created)
      have d2: "db (load e2 now2 (Some df) ?d1) =
                  \<lparr>tbl = Some ?t2, views = [(resumen_por_estado, resumen_por_estado_sql),
                                            (calidad_por_periodo, calidad_por_periodo_sql)]\<rparr>"
        and r2: "raised (load e2 now2 (Some df) ?d1) = None"
        using second True by (simp_all add: rv1 cr)
      show ?thesis
        unfolding d2 r2 unfolding d1
        by (simp add: row_count_def length_rows_setitem_scalar)
    next
      case nc: False
      have d1: "?d1 = \<lparr>tbl = Some ?t1, views = []\<rparr>" and r1: "raised (load e1 now1 (Some df) d) \<noteq> None"
        using first False nc by (auto simp: rv)
      have rv1: "remaining_views ?d1 = []"
        unfolding d1 by (simp add: remaining_views_def)
      have d2: "db (load e2 now2 (Some df) ?d1) = \<lparr>tbl = Some ?t2, views = []\<rparr>"
        using second(1) nc by (simp add: rv1 cr)
      show ?thesis
        using r1 unfolding d2 unfolding d1
        by (auto simp: row_count_def length_rows_setitem_scalar)
    qed
  qed
qed

theorem load_twice_same_as_once_witness:
  "row_count (db (load \<lparr>fails = (\<lambda>s. False), leftover = None\<rparr> (Str ''2025-11-24'')
       (Some \<lparr>columns = [''estado'', ''periodo'', ''semaforo'', ''indice_calidad_general''],
              rows = [[Str ''Sonora'', Str ''2020'', Str ''VERDE'', Num 1]]\<rparr>)
       (db (load \<lparr>fails = (\<lambda>s. False), leftover = None\<rparr> (Str ''2025-11-23'')
          (Some \<lparr>columns = [''estado'', ''periodo'', ''semaforo'', ''indice_calidad_general''],
                 rows = [[Str ''Sonora'', Str ''2020'', Str ''VERDE'', Num 1]]\<rparr>)
          \<lparr>tbl = None, views = []\<rparr>)))) = Some 1 \<and>
   views (db (load \<lparr>fails = (\<lambda>s. False), leftover = None\<rparr> (Str ''2025-11-24'')
       (Some \<lparr>columns = [''estado'', ''periodo'', ''semaforo'', ''indice_calidad_general''],
              rows = [[Str ''Sonora'', Str ''2020'', Str ''VERDE'', Num 1]]\<rparr>)
       (db (load \<lparr>fails = (\<lambda>s. False), leftover = None\<rparr> (Str ''2025-11-23'')
          (Some \<lparr>columns = [''estado'', ''periodo'', ''semaforo'', ''indice_calidad_general''],
                 rows = [[Str ''Sonora'', Str ''2020'', Str ''VERDE'', Num 1]]\<rparr>)
          \<lparr>tbl = None, views = []\<rparr>)))) =
     [(resumen_por_estado, resumen_por_estado_sql), (calidad_por_periodo, calidad_por_periodo_sql)]"
proof -
  let ?e = "\<lparr>fails = (\<lambda>s. False), leftover = None\<rparr>"
  let ?df = "\<lparr>columns = [''estado'', ''periodo'', ''semaforo'', ''indice_calidad_general''],
              rows = [[Str ''Sonora'', Str ''2020'', Str ''VERDE'', Num 1]]\<rparr>"
  let ?d = "\<lparr>tbl = None, views = []\<rparr>"
  have h1: "\<forall>s. \<not> fails ?e s"
    by simp
  have h3: "consistent ?d"
    by (simp add: consistent_def)
  have ok: "raised (load ?e (Str ''2025-11-23'') (Some ?df) ?d) = None"
    by code_simp
  have n: "row_count (db (load ?e (Str ''2025-11-23'') (Some ?df) ?d)) = Some 1"
    by code_simp
  note twice = load_twice_same_as_once [OF h1 h1 h3, of "Str ''2025-11-24''" ?df "Str ''2025-11-23''"]
  have a: "row_count (db (load ?e (Str ''2025-11-24'') (Some ?df)
             (db (load ?e (Str ''2025-11-23'') (Some ?df) ?d)))) =
           row_count (db (load ?e (Str ''2025-11-23'') (Some ?df) ?d))"
    using twice by (rule conjunct1)
  have v: "views (db (load ?e (Str ''2025-11-24'') (Some ?df)
             (db (load ?e (Str ''2025-11-23'') (Some ?df) ?d)))) =
           [(resumen_por_estado, resumen_por_estado_sql), (calidad_por_periodo, calidad_por_periodo_sql)]"
    using twice ok by blast
  show ?thesis
    using trans [OF a n] v by (rule conjI)
qed

end
